theory Spec2Isabelle
  imports Main "HOL-Library.Word"
begin

unbundle bit_operations_syntax

section \<open>ESP32-ModbusDevice: data model\<close>

text \<open>
  A shallow embedding of the transaction core of the ModbusDevice library
  (ModbusTypes.h, ModbusDevice.h/.cpp, ModbusRegistry.h/.cpp, QueuedModbusDevice.h/.cpp).
  Fixed-width integers are words; \<open>std::vector\<close> is a list; a pointer that may be
  \<open>nullptr\<close> is an \<open>option\<close>.
\<close>

type_synonym u8 = "8 word"
type_synonym u16 = "16 word"
type_synonym u32 = "32 word"

subsection \<open>ModbusTypes.h\<close>

definition MODBUS_MAX_READ_SIZE :: nat where "MODBUS_MAX_READ_SIZE = 252"
definition MODBUS_MAX_SLAVE_ADDRESS :: u8 where "MODBUS_MAX_SLAVE_ADDRESS = 247"
definition MODBUS_MAX_REGISTER_COUNT :: u16 where "MODBUS_MAX_REGISTER_COUNT = 125"
definition MODBUS_MAX_WRITE_REGISTER_COUNT :: nat where "MODBUS_MAX_WRITE_REGISTER_COUNT = 123"
definition MODBUS_MAX_COIL_COUNT :: u16 where "MODBUS_MAX_COIL_COUNT = 2000"
definition MODBUS_MAX_WRITE_COIL_COUNT :: nat where "MODBUS_MAX_WRITE_COIL_COUNT = 1968"

datatype ModbusError =
    SUCCESS
  | ILLEGAL_FUNCTION
  | ILLEGAL_DATA_ADDRESS
  | ILLEGAL_DATA_VALUE
  | SLAVE_DEVICE_FAILURE
  | TIMEOUT
  | CRC_ERROR
  | INVALID_RESPONSE
  | QUEUE_FULL
  | NOT_INITIALIZED
  | COMMUNICATION_ERROR
  | INVALID_PARAMETER
  | RESOURCE_ERROR
  | NULL_POINTER
  | NOT_SUPPORTED
  | MUTEX_ERROR
  | INVALID_DATA_LENGTH
  | DEVICE_NOT_FOUND
  | RESOURCE_CREATION_FAILED
  | INVALID_ADDRESS

text \<open>\<open>ModbusResult<T>\<close> is \<open>ModbusError + T\<close>: \<open>Inl\<close> carries the error, \<open>Inr\<close> the value.\<close>

subsection \<open>The collaborators: esp32ModbusRTU and FreeRTOS\<close>

text \<open>
  The transport library's enums, as far as ModbusDevice.cpp names their members.
  \<open>OTHER_ERROR\<close> stands for every value that \<open>mapError\<close> sends to its default branch.
\<close>

datatype FunctionCode =
    READ_COIL
  | READ_DISCR_INPUT
  | READ_HOLD_REGISTER
  | READ_INPUT_REGISTER
  | WRITE_COIL
  | WRITE_HOLD_REGISTER
  | WRITE_MULT_COILS
  | WRITE_MULT_REGISTERS

fun fc_byte :: "FunctionCode \<Rightarrow> u8" where
  "fc_byte READ_COIL = 0x01"
| "fc_byte READ_DISCR_INPUT = 0x02"
| "fc_byte READ_HOLD_REGISTER = 0x03"
| "fc_byte READ_INPUT_REGISTER = 0x04"
| "fc_byte WRITE_COIL = 0x05"
| "fc_byte WRITE_HOLD_REGISTER = 0x06"
| "fc_byte WRITE_MULT_COILS = 0x0F"
| "fc_byte WRITE_MULT_REGISTERS = 0x10"

datatype Esp32Error =
    E_SUCCESS
  | E_TIMEOUT
  | E_CRC_ERROR
  | E_INVALID_RESPONSE
  | E_QUEUE_FULL
  | E_MEMORY_ALLOCATION_FAILED
  | E_ILLEGAL_FUNCTION
  | E_ILLEGAL_DATA_ADDRESS
  | E_ILLEGAL_DATA_VALUE
  | E_SERVER_DEVICE_FAILURE
  | E_INVALID_SLAVE
  | E_INVALID_FUNCTION
  | E_INVALID_PARAMETER
  | E_COMM_ERROR
  | OTHER_ERROR

datatype ModbusPriority = EMERGENCY | SENSOR | RELAY | STATUS

datatype esp_err_t = ESP_OK | ESP_FAIL | ESP_ERR_NO_MEM | ESP_ERR_TIMEOUT

text \<open>
  A FreeRTOS mutex handle, with the behaviour the repository's own mock gives it
  (mock\_freertos.h): \<open>None\<close> is \<open>nullptr\<close>, \<open>Some taken\<close> a live mutex.
  \<open>xSemaphoreTake\<close> fails on a null handle, when the mutex is already taken, or when
  the environment makes it fail (\<open>mockMutexShouldFail\<close>: contention until the timeout).
\<close>

type_synonym SemaphoreHandle_t = "bool option"

definition xSemaphoreTake :: "bool \<Rightarrow> SemaphoreHandle_t \<Rightarrow> bool \<times> SemaphoreHandle_t" where
  "xSemaphoreTake mockMutexShouldFail xSemaphore =
     (case xSemaphore of
        None \<Rightarrow> (False, None)
      | Some taken \<Rightarrow>
          if mockMutexShouldFail \<or> taken then (False, Some taken) else (True, Some True))"

definition xSemaphoreGive :: "SemaphoreHandle_t \<Rightarrow> SemaphoreHandle_t" where
  "xSemaphoreGive xSemaphore = (case xSemaphore of None \<Rightarrow> None | Some taken \<Rightarrow> Some False)"

text \<open>
  Event groups live in a store from handles to bit masks; handle \<open>0\<close> is \<open>nullptr\<close>.
  \<open>xEventGroupSetBits\<close> ors the bits into the group and ignores a null handle.
\<close>

type_synonym EventGroupHandle_t = nat
type_synonym EventBits_t = u32
type_synonym EventGroups = "EventGroupHandle_t \<Rightarrow> EventBits_t"

definition xEventGroupSetBits ::
  "EventGroupHandle_t \<Rightarrow> EventBits_t \<Rightarrow> EventGroups \<Rightarrow> EventGroups" where
  "xEventGroupSetBits xEventGroup uxBitsToSet groups =
     (if xEventGroup = 0 then groups
      else groups(xEventGroup := groups xEventGroup OR uxBitsToSet))"

subsection \<open>ModbusDevice.h: the device and its sync context\<close>

datatype InitPhase = UNINITIALIZED | CONFIGURING | READY | ERROR

text \<open>
  The sync context's \<open>semaphore\<close> is a binary semaphore used as a signal:
  \<open>None\<close> is \<open>nullptr\<close>, \<open>Some True\<close> a semaphore that has been given and not yet
  taken, \<open>Some False\<close> an empty one (the state \<open>xSemaphoreCreateBinary\<close> returns).
\<close>

record SyncContext =
  responseData :: "u8 list"
  responseReceived :: bool
  errorOccurred :: bool
  error :: ModbusError
  semaphore :: "bool option"

record ModbusDevice =
  self :: nat
  serverAddress :: u8
  initPhase :: InitPhase
  lastError :: ModbusError
  totalRequests :: u32
  successfulRequests :: u32
  timeouts :: u32
  crcErrors :: u32
  syncContext :: "SyncContext option"
  syncMutex :: SemaphoreHandle_t
  eventGroup :: EventGroupHandle_t
  readyBit :: EventBits_t
  errorBit :: EventBits_t

text \<open>
  The constructor: \<open>self\<close> is the object's identity (its \<open>this\<close> pointer); every other
  member takes its in-class initialiser, and an address of 0 or above 247 is replaced
  by 1.
\<close>

definition ModbusDevice_ctor :: "nat \<Rightarrow> u8 \<Rightarrow> ModbusDevice" where
  "ModbusDevice_ctor this serverAddr =
     \<lparr> self = this,
       serverAddress =
         (if serverAddr = 0 \<or> serverAddr > MODBUS_MAX_SLAVE_ADDRESS then 1 else serverAddr),
       initPhase = UNINITIALIZED,
       lastError = SUCCESS,
       totalRequests = 0,
       successfulRequests = 0,
       timeouts = 0,
       crcErrors = 0,
       syncContext = None,
       syncMutex = None,
       eventGroup = 0,
       readyBit = 0,
       errorBit = 0 \<rparr>"

definition getServerAddress :: "ModbusDevice \<Rightarrow> u8" where
  "getServerAddress d = serverAddress d"

definition getInitPhase :: "'a ModbusDevice_scheme \<Rightarrow> InitPhase" where
  "getInitPhase d = initPhase d"

definition getLastError :: "ModbusDevice \<Rightarrow> ModbusError" where
  "getLastError d = lastError d"

subsection \<open>ModbusRegistry.h/.cpp\<close>

text \<open>
  The registry maps a bus address to a device pointer (the device's identity; \<open>None\<close>
  as an argument is \<open>nullptr\<close>). Every operation on the map takes \<open>mutex_\<close> first; the
  first argument of each says whether the environment makes that acquisition fail.
  A \<open>MutexGuard\<close> takes the mutex when it is built and gives it back when it goes
  out of scope. The members \<open>deviceMap_\<close>, \<open>mutex_\<close>, \<open>busMutex_\<close> and
  \<open>modbusRTU_\<close> are the fields \<open>deviceMap\<close>, \<open>regMutex\<close>, \<open>busMutex\<close> and
  \<open>modbusRTU\<close> (whether the transport pointer is set).
\<close>

record ModbusRegistry =
  deviceMap :: "u8 \<rightharpoonup> nat"
  regMutex :: SemaphoreHandle_t
  busMutex :: SemaphoreHandle_t
  modbusRTU :: bool

definition ModbusRegistry_registerDevice ::
  "bool \<Rightarrow> u8 \<Rightarrow> nat option \<Rightarrow> ModbusRegistry \<Rightarrow> bool \<times> ModbusRegistry" where
  "ModbusRegistry_registerDevice lockFails address device r =
     (case device of
        None \<Rightarrow> (False, r)
      | Some dv \<Rightarrow>
          if address = 0 \<or> address > 247 then (False, r)
          else if regMutex r = None then (False, r)
          else
            (case xSemaphoreTake lockFails (regMutex r) of
               (False, m) \<Rightarrow> (False, r\<lparr>regMutex := m\<rparr>)
             | (True, m) \<Rightarrow>
                 (True, r\<lparr>deviceMap := (deviceMap r)(address \<mapsto> dv),
                           regMutex := xSemaphoreGive m\<rparr>)))"

definition ModbusRegistry_unregisterDevice ::
  "bool \<Rightarrow> u8 \<Rightarrow> ModbusRegistry \<Rightarrow> bool \<times> ModbusRegistry" where
  "ModbusRegistry_unregisterDevice lockFails address r =
     (if regMutex r = None then (False, r)
      else
        (case xSemaphoreTake lockFails (regMutex r) of
           (False, m) \<Rightarrow> (False, r\<lparr>regMutex := m\<rparr>)
         | (True, m) \<Rightarrow>
             (case deviceMap r address of
                Some dv \<Rightarrow>
                  (True, r\<lparr>deviceMap := (deviceMap r)(address := None),
                            regMutex := xSemaphoreGive m\<rparr>)
              | None \<Rightarrow> (False, r\<lparr>regMutex := xSemaphoreGive m\<rparr>))))"

definition ModbusRegistry_getDevice ::
  "bool \<Rightarrow> u8 \<Rightarrow> ModbusRegistry \<Rightarrow> nat option \<times> ModbusRegistry" where
  "ModbusRegistry_getDevice lockFails address r =
     (if regMutex r = None then (None, r)
      else
        (case xSemaphoreTake lockFails (regMutex r) of
           (True, m) \<Rightarrow> (deviceMap r address, r\<lparr>regMutex := xSemaphoreGive m\<rparr>)
         | (False, m) \<Rightarrow> (None, r\<lparr>regMutex := m\<rparr>)))"

definition ModbusRegistry_hasDevice ::
  "bool \<Rightarrow> u8 \<Rightarrow> ModbusRegistry \<Rightarrow> bool \<times> ModbusRegistry" where
  "ModbusRegistry_hasDevice lockFails address r =
     (case ModbusRegistry_getDevice lockFails address r of (dv, r') \<Rightarrow> (dv \<noteq> None, r'))"

definition ModbusRegistry_getDeviceCount ::
  "bool \<Rightarrow> ModbusRegistry \<Rightarrow> nat \<times> ModbusRegistry" where
  "ModbusRegistry_getDeviceCount lockFails r =
     (if regMutex r = None then (0, r)
      else
        (case xSemaphoreTake lockFails (regMutex r) of
           (True, m) \<Rightarrow> (card (dom (deviceMap r)), r\<lparr>regMutex := xSemaphoreGive m\<rparr>)
         | (False, m) \<Rightarrow> (0, r\<lparr>regMutex := m\<rparr>)))"

definition setModbusRTU :: "bool \<Rightarrow> bool \<Rightarrow> ModbusRegistry \<Rightarrow> ModbusRegistry" where
  "setModbusRTU lockFails rtu r =
     (if regMutex r = None then r
      else
        (case xSemaphoreTake lockFails (regMutex r) of
           (True, m) \<Rightarrow> r\<lparr>modbusRTU := rtu, regMutex := xSemaphoreGive m\<rparr>
         | (False, m) \<Rightarrow> r\<lparr>regMutex := m\<rparr>))"

text \<open>
  The registry as its constructor leaves it when both mutexes could be created, and a
  registry whose map mutex is free: the state every operation starts from unless
  another task holds the mutex.
\<close>

definition ModbusRegistry_ctor :: ModbusRegistry where
  "ModbusRegistry_ctor =
     \<lparr> deviceMap = Map.empty, regMutex = Some False, busMutex = Some False,
       modbusRTU = False \<rparr>"

subsection \<open>The system state\<close>

text \<open>
  What one call can read and write: the device it is called on, the registry
  singleton, the static \<open>ModbusDevice::modbusMutex\<close> (a cached copy of the registry's
  bus mutex handle: only whether it is still null matters), and the event groups.
  \<open>trace\<close> records, in order, what the call did to the bus: each successful take and each
  give of the bus mutex, each request handed to the transport, and each start of a wait
  on the sync semaphore. A dispatch and a wait carry the sync context's
  (response-received, error-occurred) flags as they stood at that moment.
\<close>

datatype Payload =
    NoPayload
  | RegisterValue u16
  | RegisterBytes "u8 list"
  | CoilValue bool
  | CoilValues "bool list"

record Request =
  rq_slave :: u8
  rq_fc :: u8
  rq_addr :: u16
  rq_count :: u16
  rq_payload :: Payload
  rq_priority :: ModbusPriority

datatype Event =
    BusTake
  | BusGive
  | Dispatch Request "bool \<times> bool"
  | Wait "bool \<times> bool"

record System =
  dev :: ModbusDevice
  registry :: ModbusRegistry
  modbusMutex :: bool
  eventGroups :: EventGroups
  trace :: "Event list"

subsection \<open>ModbusDevice.cpp: address, registration, lifecycle\<close>

definition ModbusDevice_registerDevice :: "bool \<Rightarrow> System \<Rightarrow> ModbusError \<times> System" where
  "ModbusDevice_registerDevice lockFails s =
     (case ModbusRegistry_registerDevice lockFails (serverAddress (dev s)) (Some (self (dev s)))
             (registry s) of
        (True, r) \<Rightarrow> (SUCCESS, s\<lparr>registry := r\<rparr>)
      | (False, r) \<Rightarrow> (MUTEX_ERROR, s\<lparr>registry := r\<rparr>))"

definition ModbusDevice_unregisterDevice :: "bool \<Rightarrow> System \<Rightarrow> ModbusError \<times> System" where
  "ModbusDevice_unregisterDevice lockFails s =
     (case ModbusRegistry_unregisterDevice lockFails (serverAddress (dev s)) (registry s) of
        (found, r) \<Rightarrow> (SUCCESS, s\<lparr>registry := r\<rparr>))"

text \<open>
  \<open>setServerAddress\<close>; the two flags say whether the registry's mutex fails for the
  unregistration and for the re-registration.
\<close>

definition setServerAddress ::
  "bool \<Rightarrow> bool \<Rightarrow> u8 \<Rightarrow> System \<Rightarrow> (ModbusError + unit) \<times> System" where
  "setServerAddress unregLockFails regLockFails address s =
     (if address = 0 \<or> address > MODBUS_MAX_SLAVE_ADDRESS then (Inl INVALID_ADDRESS, s)
      else
        (case ModbusDevice_unregisterDevice unregLockFails s of
           (u, s1) \<Rightarrow>
             let s2 = s1\<lparr>dev := (dev s1)\<lparr>serverAddress := address\<rparr>\<rparr> in
             if initPhase (dev s2) = READY then
               (case ModbusDevice_registerDevice regLockFails s2 of
                  (err, s3) \<Rightarrow> if err \<noteq> SUCCESS then (Inl err, s3) else (Inr (), s3))
             else (Inr (), s2)))"

definition setInitPhase :: "InitPhase \<Rightarrow> System \<Rightarrow> System" where
  "setInitPhase phase s =
     (let oldPhase = initPhase (dev s);
          s1 = s\<lparr>dev := (dev s)\<lparr>initPhase := phase\<rparr>\<rparr>
      in
        if oldPhase = phase then s1
        else if eventGroup (dev s1) \<noteq> 0 then
          (if phase = READY \<and> readyBit (dev s1) \<noteq> 0 then
             s1\<lparr>eventGroups :=
                  xEventGroupSetBits (eventGroup (dev s1)) (readyBit (dev s1)) (eventGroups s1)\<rparr>
           else if phase = ERROR \<and> errorBit (dev s1) \<noteq> 0 then
             s1\<lparr>eventGroups :=
                  xEventGroupSetBits (eventGroup (dev s1)) (errorBit (dev s1)) (eventGroups s1)\<rparr>
           else s1)
        else s1)"

definition setEventGroup ::
  "EventGroupHandle_t \<Rightarrow> EventBits_t \<Rightarrow> EventBits_t \<Rightarrow> System \<Rightarrow> System" where
  "setEventGroup grp ready err s =
     (let s1 = s\<lparr>dev := (dev s)\<lparr>eventGroup := grp, readyBit := ready, errorBit := err\<rparr>\<rparr>;
          currentPhase = getInitPhase (dev s1)
      in
        if eventGroup (dev s1) \<noteq> 0 then
          (if currentPhase = READY \<and> readyBit (dev s1) \<noteq> 0 then
             s1\<lparr>eventGroups :=
                  xEventGroupSetBits (eventGroup (dev s1)) (readyBit (dev s1)) (eventGroups s1)\<rparr>
           else if currentPhase = ERROR \<and> errorBit (dev s1) \<noteq> 0 then
             s1\<lparr>eventGroups :=
                  xEventGroupSetBits (eventGroup (dev s1)) (errorBit (dev s1)) (eventGroups s1)\<rparr>
           else s1)
        else s1)"

text \<open>
  A freshly constructed device in a system whose registry has just been built, with no
  event group bit set: the start of the concrete runs below.
\<close>

definition System_init :: "nat \<Rightarrow> u8 \<Rightarrow> System" where
  "System_init this serverAddr =
     \<lparr> dev = ModbusDevice_ctor this serverAddr,
       registry = ModbusRegistry_ctor,
       modbusMutex = False,
       eventGroups = (\<lambda>h. 0),
       trace = [] \<rparr>"

subsection \<open>The environment of one call\<close>

text \<open>
  The transport answers asynchronously, from its own task, through \<open>handleData\<close> and
  \<open>handleError\<close>. A callback carries whether its try-lock of the device's
  \<open>syncMutex\<close> fails, and for data the function code, the starting address and the
  buffer: the pointer \<open>data\<close> with \<open>length\<close>, where \<open>NullData n\<close> is a null pointer
  announced with length \<open>n\<close> and \<open>Bytes bs\<close> a buffer of \<open>length bs\<close> bytes.
\<close>

datatype Buffer = NullData nat | Bytes "u8 list"

fun buf_length :: "Buffer \<Rightarrow> nat" where
  "buf_length (NullData n) = n"
| "buf_length (Bytes bs) = length bs"

fun buf_bytes :: "Buffer \<Rightarrow> u8 list" where
  "buf_bytes (NullData n) = []"
| "buf_bytes (Bytes bs) = bs"

fun buf_null :: "Buffer \<Rightarrow> bool" where
  "buf_null (NullData n) = True"
| "buf_null (Bytes bs) = False"

datatype Callback =
    OnData bool FunctionCode u16 Buffer
  | OnError bool Esp32Error

text \<open>
  Everything outside the caller's control during one synchronous operation: whether
  the bus mutex cannot be had within the timeout, whether creating the sync semaphore
  or the sync mutex fails, whether \<open>new (std::nothrow)\<close> fails, whether the transport
  accepts the request, the callbacks that arrive after the dispatch has returned and
  before \<open>waitForResponse\<close> clears the flags, and the callbacks that arrive, in order,
  while the caller is blocked on the semaphore (none at all when the transport never
  calls back before the timeout).
\<close>

record Env =
  busTakeFails :: bool
  semaphoreCreateFails :: bool
  mutexCreateFails :: bool
  allocFails :: bool
  rtuAccepts :: bool
  earlyCallbacks :: "Callback list"
  waitCallbacks :: "Callback list"

subsection \<open>ModbusDevice.cpp: the callback path\<close>

definition mapError :: "Esp32Error \<Rightarrow> ModbusError" where
  "mapError e =
     (case e of
        E_SUCCESS \<Rightarrow> SUCCESS
      | E_TIMEOUT \<Rightarrow> TIMEOUT
      | E_CRC_ERROR \<Rightarrow> CRC_ERROR
      | E_INVALID_RESPONSE \<Rightarrow> INVALID_RESPONSE
      | E_QUEUE_FULL \<Rightarrow> QUEUE_FULL
      | E_MEMORY_ALLOCATION_FAILED \<Rightarrow> RESOURCE_ERROR
      | E_ILLEGAL_FUNCTION \<Rightarrow> ILLEGAL_FUNCTION
      | E_ILLEGAL_DATA_ADDRESS \<Rightarrow> ILLEGAL_DATA_ADDRESS
      | E_ILLEGAL_DATA_VALUE \<Rightarrow> ILLEGAL_DATA_VALUE
      | E_SERVER_DEVICE_FAILURE \<Rightarrow> SLAVE_DEVICE_FAILURE
      | E_INVALID_SLAVE \<Rightarrow> INVALID_PARAMETER
      | E_INVALID_FUNCTION \<Rightarrow> INVALID_PARAMETER
      | E_INVALID_PARAMETER \<Rightarrow> INVALID_PARAMETER
      | E_COMM_ERROR \<Rightarrow> COMMUNICATION_ERROR
      | OTHER_ERROR \<Rightarrow> COMMUNICATION_ERROR)"

text \<open>Giving a binary semaphore leaves it signalled; a null handle stays null.\<close>

definition xSemaphoreGiveBinary :: "bool option \<Rightarrow> bool option" where
  "xSemaphoreGiveBinary sem = (case sem of None \<Rightarrow> None | Some signalled \<Rightarrow> Some True)"

text \<open>
  The base class's virtual handlers: \<open>handleModbusResponse\<close> only logs,
  \<open>handleModbusError\<close> stores the error as the last error.
\<close>

definition ModbusDevice_handleModbusResponse ::
  "u8 \<Rightarrow> u16 \<Rightarrow> Buffer \<Rightarrow> 'a ModbusDevice_scheme \<Rightarrow> 'a ModbusDevice_scheme" where
  "ModbusDevice_handleModbusResponse functionCode address buf d = d"

definition ModbusDevice_handleModbusError ::
  "ModbusError \<Rightarrow> 'a ModbusDevice_scheme \<Rightarrow> 'a ModbusDevice_scheme" where
  "ModbusDevice_handleModbusError err d = d\<lparr>lastError := err\<rparr>"

text \<open>
  \<open>handleData\<close> and \<open>handleError\<close> are not virtual; the virtual handler each ends with
  is their first argument. The first part of each updates the sync context, under a
  try-lock of \<open>syncMutex\<close>, whatever the device's class or mode.
\<close>

definition handleData_sync ::
  "bool \<Rightarrow> FunctionCode \<Rightarrow> Buffer \<Rightarrow> 'a ModbusDevice_scheme \<Rightarrow> 'a ModbusDevice_scheme" where
  "handleData_sync lockFails fc buf d =
     (case syncContext d of
        None \<Rightarrow> d
      | Some sc \<Rightarrow>
          if syncMutex d = None then d
          else
            (case xSemaphoreTake lockFails (syncMutex d) of
               (False, m) \<Rightarrow> d\<lparr>syncMutex := m\<rparr>
             | (True, m) \<Rightarrow>
                 let isWriteOp = (fc = WRITE_HOLD_REGISTER \<or> fc = WRITE_MULT_REGISTERS \<or>
                                  fc = WRITE_COIL \<or> fc = WRITE_MULT_COILS);
                     sc' =
                       (if \<not> responseReceived sc \<and> \<not> buf_null buf
                           \<and> (buf_length buf > 0 \<or> isWriteOp)
                        then sc\<lparr>responseData := (if buf_length buf > 0 then buf_bytes buf else []),
                                responseReceived := True,
                                semaphore := xSemaphoreGiveBinary (semaphore sc)\<rparr>
                        else sc)
                 in d\<lparr>syncContext := Some sc', syncMutex := xSemaphoreGive m\<rparr>))"

definition handleData ::
  "(u8 \<Rightarrow> u16 \<Rightarrow> Buffer \<Rightarrow> 'a ModbusDevice_scheme \<Rightarrow> 'a ModbusDevice_scheme) \<Rightarrow>
   bool \<Rightarrow> FunctionCode \<Rightarrow> u16 \<Rightarrow> Buffer \<Rightarrow> 'a ModbusDevice_scheme \<Rightarrow> 'a ModbusDevice_scheme" where
  "handleData handleModbusResponse lockFails fc startingAddress buf d =
     handleModbusResponse (fc_byte fc) startingAddress buf (handleData_sync lockFails fc buf d)"

definition handleError ::
  "(ModbusError \<Rightarrow> 'a ModbusDevice_scheme \<Rightarrow> 'a ModbusDevice_scheme) \<Rightarrow>
   bool \<Rightarrow> Esp32Error \<Rightarrow> 'a ModbusDevice_scheme \<Rightarrow> 'a ModbusDevice_scheme" where
  "handleError handleModbusError lockFails e d =
     (let modbusError = mapError e;
          d1 =
            (case syncContext d of
               None \<Rightarrow> d
             | Some sc \<Rightarrow>
                 if syncMutex d = None then d
                 else
                   (case xSemaphoreTake lockFails (syncMutex d) of
                      (False, m) \<Rightarrow> d\<lparr>syncMutex := m\<rparr>
                    | (True, m) \<Rightarrow>
                        let sc' =
                              (if \<not> responseReceived sc \<and> \<not> errorOccurred sc
                               then sc\<lparr>error := modbusError, errorOccurred := True,
                                       semaphore := xSemaphoreGiveBinary (semaphore sc)\<rparr>
                               else sc)
                        in d\<lparr>syncContext := Some sc', syncMutex := xSemaphoreGive m\<rparr>));
          d2 = (if modbusError = CRC_ERROR then d1\<lparr>crcErrors := crcErrors d1 + 1\<rparr> else d1)
      in handleModbusError modbusError d2)"

text \<open>One callback, and a run of callbacks, delivered to a device of the base class.\<close>

fun deliver :: "Callback \<Rightarrow> ModbusDevice \<Rightarrow> ModbusDevice" where
  "deliver (OnData lockFails fc startingAddress buf) d =
     handleData ModbusDevice_handleModbusResponse lockFails fc startingAddress buf d"
| "deliver (OnError lockFails e) d = handleError ModbusDevice_handleModbusError lockFails e d"

fun deliverAll :: "Callback list \<Rightarrow> ModbusDevice \<Rightarrow> ModbusDevice" where
  "deliverAll [] d = d"
| "deliverAll (cb # cbs) d = deliverAll cbs (deliver cb d)"

subsection \<open>ModbusDevice.cpp: the transaction core\<close>

definition ensureSyncReady ::
  "Env \<Rightarrow> 'a ModbusDevice_scheme \<Rightarrow> 'a ModbusDevice_scheme" where
  "ensureSyncReady env d =
     (if syncContext d = None \<and> semaphoreCreateFails env then d
      else
        let d1 =
              (if syncContext d = None
               then d\<lparr>syncContext :=
                        Some \<lparr> responseData = [], responseReceived = False,
                               errorOccurred = False, error = SUCCESS,
                               semaphore = Some False \<rparr>\<rparr>
               else d)
        in
          if syncMutex d1 = None
          then d1\<lparr>syncMutex := (if mutexCreateFails env then None else Some False)\<rparr>
          else d1)"

definition acquireBusMutex :: "Env \<Rightarrow> System \<Rightarrow> bool \<times> System" where
  "acquireBusMutex env s =
     (if \<not> modbusMutex s \<and> busMutex (registry s) = None then (False, s)
      else
        let s1 = s\<lparr>modbusMutex := True\<rparr> in
        (case xSemaphoreTake (busTakeFails env) (busMutex (registry s1)) of
           (False, m) \<Rightarrow> (False, s1\<lparr>registry := (registry s1)\<lparr>busMutex := m\<rparr>\<rparr>)
         | (True, m) \<Rightarrow>
             (True, s1\<lparr>registry := (registry s1)\<lparr>busMutex := m\<rparr>,
                       trace := trace s1 @ [BusTake]\<rparr>)))"

definition releaseBusMutex :: "System \<Rightarrow> System" where
  "releaseBusMutex s =
     (if modbusMutex s
      then s\<lparr>registry := (registry s)\<lparr>busMutex := xSemaphoreGive (busMutex (registry s))\<rparr>,
             trace := trace s @ [BusGive]\<rparr>
      else s)"

text \<open>The sync context's flags, read where there is no context as both unset.\<close>

definition syncFlags :: "ModbusDevice \<Rightarrow> bool \<times> bool" where
  "syncFlags d =
     (case syncContext d of
        None \<Rightarrow> (False, False)
      | Some sc \<Rightarrow> (responseReceived sc, errorOccurred sc))"

text \<open>
  One call of a request method of the transport: the request is recorded, and the
  transport's accept or reject becomes \<open>ESP_OK\<close> or \<open>ESP_FAIL\<close>.
\<close>

definition rtuRequest ::
  "Env \<Rightarrow> u8 \<Rightarrow> u16 \<Rightarrow> u16 \<Rightarrow> Payload \<Rightarrow> ModbusPriority \<Rightarrow> System \<Rightarrow> esp_err_t \<times> System" where
  "rtuRequest env fc addr count payload priority s =
     (if rtuAccepts env then ESP_OK else ESP_FAIL,
      s\<lparr>trace := trace s @
           [Dispatch \<lparr> rq_slave = serverAddress (dev s), rq_fc = fc, rq_addr = addr,
                       rq_count = count, rq_payload = payload, rq_priority = priority \<rparr>
                     (syncFlags (dev s))]\<rparr>)"

definition sendRequestWithPriority ::
  "Env \<Rightarrow> u8 \<Rightarrow> u16 \<Rightarrow> u16 \<Rightarrow> ModbusPriority \<Rightarrow> u16 list option \<Rightarrow> System
   \<Rightarrow> esp_err_t \<times> System" where
  "sendRequestWithPriority env fc addr count priority data s =
     (if \<not> modbusRTU (registry s) then (ESP_FAIL, s)
      else
        (case
           (if fc = 0x03 then rtuRequest env fc addr count NoPayload priority s
            else if fc = 0x04 then rtuRequest env fc addr count NoPayload priority s
            else if fc = 0x01 then rtuRequest env fc addr count NoPayload priority s
            else if fc = 0x02 then rtuRequest env fc addr count NoPayload priority s
            else if fc = 0x06 then
              (case data of
                 None \<Rightarrow> (ESP_FAIL, s)
               | Some dt \<Rightarrow> rtuRequest env fc addr count (RegisterValue (dt ! 0)) priority s)
            else if fc = 0x10 then
              (case data of
                 None \<Rightarrow> (ESP_FAIL, s)
               | Some dt \<Rightarrow>
                   if count > 0 then
                     (if allocFails env then (ESP_ERR_NO_MEM, s)
                      else
                        rtuRequest env fc addr count
                          (RegisterBytes
                             (concat (map (\<lambda>i. [ucast (drop_bit 8 (dt ! i) AND 0xFF),
                                                 ucast (dt ! i AND 0xFF)])
                                          [0..<unat count])))
                          priority s)
                   else (ESP_FAIL, s))
            else if fc = 0x05 then
              (case data of
                 None \<Rightarrow> (ESP_FAIL, s)
               | Some dt \<Rightarrow> rtuRequest env fc addr count (CoilValue (dt ! 0 \<noteq> 0)) priority s)
            else if fc = 0x0F then
              (case data of
                 None \<Rightarrow> (ESP_FAIL, s)
               | Some dt \<Rightarrow>
                   if count > 0 then
                     (if allocFails env then (ESP_ERR_NO_MEM, s)
                      else
                        rtuRequest env fc addr count
                          (CoilValues
                             (map (\<lambda>i. dt ! (i div 16) AND push_bit (i mod 16) 1 \<noteq> 0)
                                  [0..<unat count]))
                          priority s)
                   else (ESP_FAIL, s))
            else (ESP_FAIL, s))
         of (result, s1) \<Rightarrow>
           (result,
            s1\<lparr>dev := (dev s1)\<lparr>totalRequests := totalRequests (dev s1) + 1,
                                lastError := (if result \<noteq> ESP_OK then COMMUNICATION_ERROR
                                              else lastError (dev s1))\<rparr>\<rparr>)))"

definition sendRequestInternal ::
  "Env \<Rightarrow> u8 \<Rightarrow> u16 \<Rightarrow> u16 \<Rightarrow> u16 list option \<Rightarrow> System \<Rightarrow> esp_err_t \<times> System" where
  "sendRequestInternal env fc addr count data s =
     sendRequestWithPriority env fc addr count RELAY data s"

text \<open>
  The blocking \<open>xSemaphoreTake\<close> on the sync semaphore. A signalled semaphore is taken
  at once; otherwise the caller stays blocked while the callbacks of the wait window
  run one after the other, and wakes with the first one that gives the semaphore. When
  the window ends with the semaphore still empty, the take has timed out.
\<close>

definition signalled :: "ModbusDevice \<Rightarrow> bool" where
  "signalled d = (case syncContext d of None \<Rightarrow> False | Some sc \<Rightarrow> semaphore sc = Some True)"

definition takeSignal :: "ModbusDevice \<Rightarrow> ModbusDevice" where
  "takeSignal d =
     (case syncContext d of
        None \<Rightarrow> d
      | Some sc \<Rightarrow> d\<lparr>syncContext := Some (sc\<lparr>semaphore := Some False\<rparr>)\<rparr>)"

fun awaitSemaphore :: "Callback list \<Rightarrow> ModbusDevice \<Rightarrow> bool \<times> ModbusDevice" where
  "awaitSemaphore [] d = (if signalled d then (True, takeSignal d) else (False, d))"
| "awaitSemaphore (cb # cbs) d =
     (if signalled d then (True, takeSignal d) else awaitSemaphore cbs (deliver cb d))"

definition waitForResponse :: "Env \<Rightarrow> System \<Rightarrow> (ModbusError + u8 list) \<times> System" where
  "waitForResponse env s0 =
     (let s = s0\<lparr>dev := deliverAll (earlyCallbacks env) (dev s0)\<rparr> in
      case syncContext (dev s) of
        None \<Rightarrow> (Inl NOT_INITIALIZED, s)
      | Some sc \<Rightarrow>
          if semaphore sc = None then (Inl NOT_INITIALIZED, s)
          else
            let cleared = (dev s)\<lparr>syncContext :=
                             Some (sc\<lparr>responseReceived := False, errorOccurred := False,
                                      responseData := []\<rparr>)\<rparr>;
                s1 = s\<lparr>dev := cleared, trace := trace s @ [Wait (syncFlags cleared)]\<rparr>
            in
              (case awaitSemaphore (waitCallbacks env) (dev s1) of
                 (taken, d2) \<Rightarrow>
                   let timedOut =
                         (Inl TIMEOUT,
                          s1\<lparr>dev := d2\<lparr>timeouts := timeouts d2 + 1, lastError := TIMEOUT\<rparr>\<rparr>)
                   in
                     if taken then
                       (case syncContext d2 of
                          None \<Rightarrow> timedOut
                        | Some sc2 \<Rightarrow>
                            if errorOccurred sc2 then (Inl (error sc2), s1\<lparr>dev := d2\<rparr>)
                            else if responseReceived sc2 then
                              (Inr (responseData sc2),
                               s1\<lparr>dev := d2\<lparr>successfulRequests := successfulRequests d2 + 1\<rparr>\<rparr>)
                            else timedOut)
                     else timedOut))"

subsection \<open>ModbusDevice.cpp: the eight synchronous operations\<close>

text \<open>
  The two conversion loops of the read operations, with the loop index and the vector
  built so far as arguments. The register loop is
  \<open>for (i = 0; i + 1 < data.size(); i += 2)\<close>, the coil loop
  \<open>for (i = 0; i < count && i / 8 < data.size(); i++)\<close>; its 16-bit index stays below
  \<open>count\<close> and so never wraps.
\<close>

function registerLoop :: "u8 list \<Rightarrow> nat \<Rightarrow> u16 list \<Rightarrow> u16 list" where
  "registerLoop data i values =
     (if i + 1 < length data
      then registerLoop data (i + 2)
             (values @ [push_bit 8 (ucast (data ! i)) OR ucast (data ! (i + 1))])
      else values)"
  by pat_completeness auto
termination
  by (relation "measure (\<lambda>(data, i, values). length data - i)") auto

function coilLoop :: "u8 list \<Rightarrow> u16 \<Rightarrow> nat \<Rightarrow> bool list \<Rightarrow> bool list" where
  "coilLoop data count i values =
     (if i < unat count \<and> i div 8 < length data
      then coilLoop data count (i + 1)
             (values @ [data ! (i div 8) AND push_bit (i mod 8) 1 \<noteq> 0])
      else values)"
  by pat_completeness auto
termination
  by (relation "measure (\<lambda>(data, count, i, values). unat count - i)") auto

definition readHoldingRegistersWithPriority ::
  "Env \<Rightarrow> u16 \<Rightarrow> u16 \<Rightarrow> ModbusPriority \<Rightarrow> System \<Rightarrow> (ModbusError + u16 list) \<times> System" where
  "readHoldingRegistersWithPriority env address count priority s =
     (if count = 0 \<or> count > MODBUS_MAX_REGISTER_COUNT then (Inl INVALID_PARAMETER, s)
      else
        (case acquireBusMutex env s of
           (False, s1) \<Rightarrow> (Inl MUTEX_ERROR, s1)
         | (True, s1) \<Rightarrow>
             let s2 = s1\<lparr>dev := ensureSyncReady env (dev s1)\<rparr> in
             (case sendRequestWithPriority env 0x03 address count priority None s2 of
                (res, s3) \<Rightarrow>
                  if res \<noteq> ESP_OK then (Inl COMMUNICATION_ERROR, releaseBusMutex s3)
                  else
                    (case waitForResponse env s3 of
                       (result, s4) \<Rightarrow>
                         let s5 = releaseBusMutex s4 in
                         (case result of
                            Inl e \<Rightarrow> (Inl e, s5)
                          | Inr data \<Rightarrow> (Inr (registerLoop data 0 []), s5))))))"

definition readHoldingRegisters ::
  "Env \<Rightarrow> u16 \<Rightarrow> u16 \<Rightarrow> System \<Rightarrow> (ModbusError + u16 list) \<times> System" where
  "readHoldingRegisters env address count s =
     readHoldingRegistersWithPriority env address count RELAY s"

definition readInputRegistersWithPriority ::
  "Env \<Rightarrow> u16 \<Rightarrow> u16 \<Rightarrow> ModbusPriority \<Rightarrow> System \<Rightarrow> (ModbusError + u16 list) \<times> System" where
  "readInputRegistersWithPriority env address count priority s =
     (if count = 0 \<or> count > MODBUS_MAX_REGISTER_COUNT then (Inl INVALID_PARAMETER, s)
      else
        (case acquireBusMutex env s of
           (False, s1) \<Rightarrow> (Inl MUTEX_ERROR, s1)
         | (True, s1) \<Rightarrow>
             let s2 = s1\<lparr>dev := ensureSyncReady env (dev s1)\<rparr> in
             (case sendRequestWithPriority env 0x04 address count priority None s2 of
                (res, s3) \<Rightarrow>
                  if res \<noteq> ESP_OK then (Inl COMMUNICATION_ERROR, releaseBusMutex s3)
                  else
                    (case waitForResponse env s3 of
                       (result, s4) \<Rightarrow>
                         let s5 = releaseBusMutex s4 in
                         (case result of
                            Inl e \<Rightarrow> (Inl e, s5)
                          | Inr data \<Rightarrow> (Inr (registerLoop data 0 []), s5))))))"

definition readInputRegisters ::
  "Env \<Rightarrow> u16 \<Rightarrow> u16 \<Rightarrow> System \<Rightarrow> (ModbusError + u16 list) \<times> System" where
  "readInputRegisters env address count s =
     readInputRegistersWithPriority env address count RELAY s"

definition writeSingleRegisterWithPriority ::
  "Env \<Rightarrow> u16 \<Rightarrow> u16 \<Rightarrow> ModbusPriority \<Rightarrow> System \<Rightarrow> (ModbusError + unit) \<times> System" where
  "writeSingleRegisterWithPriority env address val priority s =
     (case acquireBusMutex env s of
           (False, s1) \<Rightarrow> (Inl MUTEX_ERROR, s1)
         | (True, s1) \<Rightarrow>
             let s2 = s1\<lparr>dev := ensureSyncReady env (dev s1)\<rparr> in
             (case sendRequestWithPriority env 0x06 address 1 priority (Some [val]) s2 of
                (res, s3) \<Rightarrow>
                  if res \<noteq> ESP_OK then (Inl COMMUNICATION_ERROR, releaseBusMutex s3)
                  else
                    (case waitForResponse env s3 of
                       (result, s4) \<Rightarrow>
                         let s5 = releaseBusMutex s4 in
                         (case result of
                            Inl e \<Rightarrow> (Inl e, s5)
                          | Inr data \<Rightarrow> (Inr (()), s5)))))"

definition writeSingleRegister ::
  "Env \<Rightarrow> u16 \<Rightarrow> u16 \<Rightarrow> System \<Rightarrow> (ModbusError + unit) \<times> System" where
  "writeSingleRegister env address val s =
     writeSingleRegisterWithPriority env address val RELAY s"

definition writeMultipleRegisters ::
  "Env \<Rightarrow> u16 \<Rightarrow> u16 list \<Rightarrow> System \<Rightarrow> (ModbusError + unit) \<times> System" where
  "writeMultipleRegisters env address vals s =
     (if vals = [] \<or> length vals > MODBUS_MAX_WRITE_REGISTER_COUNT
      then (Inl INVALID_PARAMETER, s)
      else
        (case acquireBusMutex env s of
           (False, s1) \<Rightarrow> (Inl MUTEX_ERROR, s1)
         | (True, s1) \<Rightarrow>
             let s2 = s1\<lparr>dev := ensureSyncReady env (dev s1)\<rparr> in
             (case sendRequestInternal env 0x10 address (of_nat (length vals)) (Some vals) s2 of
                (res, s3) \<Rightarrow>
                  if res \<noteq> ESP_OK then (Inl COMMUNICATION_ERROR, releaseBusMutex s3)
                  else
                    (case waitForResponse env s3 of
                       (result, s4) \<Rightarrow>
                         let s5 = releaseBusMutex s4 in
                         (case result of
                            Inl e \<Rightarrow> (Inl e, s5)
                          | Inr data \<Rightarrow> (Inr (()), s5))))))"

definition readCoils ::
  "Env \<Rightarrow> u16 \<Rightarrow> u16 \<Rightarrow> System \<Rightarrow> (ModbusError + bool list) \<times> System" where
  "readCoils env address count s =
     (if count = 0 \<or> count > MODBUS_MAX_COIL_COUNT then (Inl INVALID_PARAMETER, s)
      else
        (case acquireBusMutex env s of
           (False, s1) \<Rightarrow> (Inl MUTEX_ERROR, s1)
         | (True, s1) \<Rightarrow>
             let s2 = s1\<lparr>dev := ensureSyncReady env (dev s1)\<rparr> in
             (case sendRequestInternal env 0x01 address count None s2 of
                (res, s3) \<Rightarrow>
                  if res \<noteq> ESP_OK then (Inl COMMUNICATION_ERROR, releaseBusMutex s3)
                  else
                    (case waitForResponse env s3 of
                       (result, s4) \<Rightarrow>
                         let s5 = releaseBusMutex s4 in
                         (case result of
                            Inl e \<Rightarrow> (Inl e, s5)
                          | Inr data \<Rightarrow> (Inr (coilLoop data count 0 []), s5))))))"

definition readDiscreteInputs ::
  "Env \<Rightarrow> u16 \<Rightarrow> u16 \<Rightarrow> System \<Rightarrow> (ModbusError + bool list) \<times> System" where
  "readDiscreteInputs env address count s =
     (if count = 0 \<or> count > MODBUS_MAX_COIL_COUNT then (Inl INVALID_PARAMETER, s)
      else
        (case acquireBusMutex env s of
           (False, s1) \<Rightarrow> (Inl MUTEX_ERROR, s1)
         | (True, s1) \<Rightarrow>
             let s2 = s1\<lparr>dev := ensureSyncReady env (dev s1)\<rparr> in
             (case sendRequestInternal env 0x02 address count None s2 of
                (res, s3) \<Rightarrow>
                  if res \<noteq> ESP_OK then (Inl COMMUNICATION_ERROR, releaseBusMutex s3)
                  else
                    (case waitForResponse env s3 of
                       (result, s4) \<Rightarrow>
                         let s5 = releaseBusMutex s4 in
                         (case result of
                            Inl e \<Rightarrow> (Inl e, s5)
                          | Inr data \<Rightarrow> (Inr (coilLoop data count 0 []), s5))))))"

definition writeSingleCoilWithPriority ::
  "Env \<Rightarrow> u16 \<Rightarrow> bool \<Rightarrow> ModbusPriority \<Rightarrow> System \<Rightarrow> (ModbusError + unit) \<times> System" where
  "writeSingleCoilWithPriority env address val priority s =
     (case acquireBusMutex env s of
           (False, s1) \<Rightarrow> (Inl MUTEX_ERROR, s1)
         | (True, s1) \<Rightarrow>
             let s2 = s1\<lparr>dev := ensureSyncReady env (dev s1)\<rparr> in
             (case sendRequestWithPriority env 0x05 address 1 priority (Some [if val then 1 else 0]) s2 of
                (res, s3) \<Rightarrow>
                  if res \<noteq> ESP_OK then (Inl COMMUNICATION_ERROR, releaseBusMutex s3)
                  else
                    (case waitForResponse env s3 of
                       (result, s4) \<Rightarrow>
                         let s5 = releaseBusMutex s4 in
                         (case result of
                            Inl e \<Rightarrow> (Inl e, s5)
                          | Inr data \<Rightarrow> (Inr (()), s5)))))"

definition writeSingleCoil ::
  "Env \<Rightarrow> u16 \<Rightarrow> bool \<Rightarrow> System \<Rightarrow> (ModbusError + unit) \<times> System" where
  "writeSingleCoil env address val s = writeSingleCoilWithPriority env address val RELAY s"

text \<open>
  \<open>writeMultipleCoils\<close> packs the booleans into 16-bit words, bit \<open>i mod 16\<close> of word
  \<open>i div 16\<close>, before it sends them.
\<close>

definition packCoils :: "bool list \<Rightarrow> u16 list" where
  "packCoils vals =
     fold (\<lambda>i packedData.
             if vals ! i
             then packedData[i div 16 := packedData ! (i div 16) OR push_bit (i mod 16) 1]
             else packedData)
          [0..<length vals]
          (replicate ((length vals + 15) div 16) 0)"

definition writeMultipleCoils ::
  "Env \<Rightarrow> u16 \<Rightarrow> bool list \<Rightarrow> System \<Rightarrow> (ModbusError + unit) \<times> System" where
  "writeMultipleCoils env address vals s =
     (if vals = [] \<or> length vals > MODBUS_MAX_WRITE_COIL_COUNT
      then (Inl INVALID_PARAMETER, s)
      else
        (case acquireBusMutex env s of
           (False, s1) \<Rightarrow> (Inl MUTEX_ERROR, s1)
         | (True, s1) \<Rightarrow>
             let s2 = s1\<lparr>dev := ensureSyncReady env (dev s1)\<rparr> in
             (case sendRequestInternal env 0x0F address (of_nat (length vals)) (Some (packCoils vals)) s2 of
                (res, s3) \<Rightarrow>
                  if res \<noteq> ESP_OK then (Inl COMMUNICATION_ERROR, releaseBusMutex s3)
                  else
                    (case waitForResponse env s3 of
                       (result, s4) \<Rightarrow>
                         let s5 = releaseBusMutex s4 in
                         (case result of
                            Inl e \<Rightarrow> (Inl e, s5)
                          | Inr data \<Rightarrow> (Inr (()), s5))))))"

subsection \<open>QueuedModbusDevice.h/.cpp\<close>

text \<open>
  A FreeRTOS queue of packets: \<open>None\<close> is a null handle; a live queue has the capacity
  it was created with and its packets in arrival order. \<open>xQueueSend\<close> with no wait
  appends when there is room and fails otherwise. A packet's \<open>pk_data\<close> holds the first \<open>pk_length\<close> bytes of its
  fixed 252-byte array when they were copied in, and nothing when they were not.
\<close>

record ModbusPacket =
  pk_functionCode :: u8
  pk_address :: u16
  pk_data :: "u8 list"
  pk_length :: nat
  pk_timestamp :: u32

record PacketQueue =
  capacity :: nat
  items :: "ModbusPacket list"

definition xQueueSend :: "ModbusPacket \<Rightarrow> PacketQueue \<Rightarrow> bool \<times> PacketQueue" where
  "xQueueSend packet q =
     (if length (items q) < capacity q then (True, q\<lparr>items := items q @ [packet]\<rparr>)
      else (False, q))"

record QueuedModbusDevice = ModbusDevice +
  queue :: "PacketQueue option"
  asyncMode :: bool

definition QueuedModbusDevice_ctor :: "nat \<Rightarrow> u8 \<Rightarrow> QueuedModbusDevice" where
  "QueuedModbusDevice_ctor this serverAddr =
     ModbusDevice.extend (ModbusDevice_ctor this serverAddr)
       (QueuedModbusDevice.fields None False)"

text \<open>
  \<open>enableAsync\<close>; the flag says whether \<open>xQueueCreate\<close> fails. QueuedModbusDevice.cpp
  holds the function twice. This is the second one (lines 129-147), whose
  \<open>disableAsync\<close> keeps the queue, so that a queue can be there with async mode off and
  enabling again sets the mode. The first one (lines 17-32) returns true without
  touching the mode when a queue is there; its \<open>disableAsync\<close> deletes the queue, so
  there a queue is only ever present with the mode on, and the two agree.
\<close>

definition enableAsync ::
  "bool \<Rightarrow> nat \<Rightarrow> QueuedModbusDevice \<Rightarrow> bool \<times> QueuedModbusDevice" where
  "enableAsync createFails queueDepth d =
     (case queue d of
        Some q \<Rightarrow> (True, d\<lparr>asyncMode := True\<rparr>)
      | None \<Rightarrow>
          if createFails then (False, d)
          else (True, d\<lparr>queue := Some \<lparr> capacity = queueDepth, items = [] \<rparr>,
                         asyncMode := True\<rparr>))"

definition getQueueDepth :: "QueuedModbusDevice \<Rightarrow> nat" where
  "getQueueDepth d = (case queue d of None \<Rightarrow> 0 | Some q \<Rightarrow> length (items q))"

text \<open>
  The override of \<open>handleModbusResponse\<close>. \<open>onQueueFull\<close> is virtual and so an
  argument; \<open>tick\<close> is what \<open>xTaskGetTickCount\<close> returns.
\<close>

definition QueuedModbusDevice_handleModbusResponse ::
  "(QueuedModbusDevice \<Rightarrow> QueuedModbusDevice) \<Rightarrow> u32 \<Rightarrow>
   u8 \<Rightarrow> u16 \<Rightarrow> Buffer \<Rightarrow> QueuedModbusDevice \<Rightarrow> QueuedModbusDevice" where
  "QueuedModbusDevice_handleModbusResponse onQueueFull tick functionCode address buf d =
     (if getInitPhase d = CONFIGURING \<or> \<not> asyncMode d \<or> queue d = None
      then ModbusDevice_handleModbusResponse functionCode address buf d
      else
        (case queue d of
           None \<Rightarrow> d
         | Some q \<Rightarrow>
             let len = (if buf_length buf > MODBUS_MAX_READ_SIZE then MODBUS_MAX_READ_SIZE
                        else buf_length buf);
                 packet = \<lparr> pk_functionCode = functionCode,
                            pk_address = address,
                            pk_data = (if \<not> buf_null buf \<and> len > 0
                                       then take len (buf_bytes buf) else []),
                            pk_length = len,
                            pk_timestamp = tick \<rparr>
             in
               (case xQueueSend packet q of
                  (True, q') \<Rightarrow> d\<lparr>queue := Some q'\<rparr>
                | (False, q') \<Rightarrow> onQueueFull (d\<lparr>queue := Some q'\<rparr>))))"

text \<open>The base implementation of the hook only logs.\<close>

definition QueuedModbusDevice_onQueueFull :: "QueuedModbusDevice \<Rightarrow> QueuedModbusDevice" where
  "QueuedModbusDevice_onQueueFull d = d"

text \<open>
  What a response does to a queued device: the transport's callback reaches
  \<open>ModbusDevice::handleData\<close>, whose virtual call lands in the override. The device's
  class decides which \<open>onQueueFull\<close> runs, so the hook stays an argument.
\<close>

definition Queued_handleData ::
  "(QueuedModbusDevice \<Rightarrow> QueuedModbusDevice) \<Rightarrow> u32 \<Rightarrow> bool \<Rightarrow> FunctionCode \<Rightarrow> u16 \<Rightarrow> Buffer
   \<Rightarrow> QueuedModbusDevice \<Rightarrow> QueuedModbusDevice" where
  "Queued_handleData onQueueFull tick lockFails fc startingAddress buf d =
     handleData (QueuedModbusDevice_handleModbusResponse onQueueFull tick)
       lockFails fc startingAddress buf d"

subsection \<open>The operations as one family\<close>

text \<open>
  To speak of every synchronous operation at once: an operation with its arguments,
  and \<open>perform\<close>, which calls the function of that name. The three result types are
  put side by side in \<open>Reply\<close>.
\<close>

datatype Reply = Registers "u16 list" | Coils "bool list" | Done

datatype Operation =
    ReadHoldingRegisters u16 u16
  | ReadHoldingRegistersWithPriority u16 u16 ModbusPriority
  | ReadInputRegisters u16 u16
  | ReadInputRegistersWithPriority u16 u16 ModbusPriority
  | WriteSingleRegister u16 u16
  | WriteSingleRegisterWithPriority u16 u16 ModbusPriority
  | WriteMultipleRegisters u16 "u16 list"
  | ReadCoils u16 u16
  | ReadDiscreteInputs u16 u16
  | WriteSingleCoil u16 bool
  | WriteSingleCoilWithPriority u16 bool ModbusPriority
  | WriteMultipleCoils u16 "bool list"

definition finish ::
  "('a \<Rightarrow> 'b) \<Rightarrow> (ModbusError + 'a) \<times> System \<Rightarrow> (ModbusError + 'b) \<times> System" where
  "finish f r = (case fst r of Inl e \<Rightarrow> Inl e | Inr v \<Rightarrow> Inr (f v), snd r)"

fun perform :: "Env \<Rightarrow> Operation \<Rightarrow> System \<Rightarrow> (ModbusError + Reply) \<times> System" where
  "perform env (ReadHoldingRegisters a c) s = finish Registers (readHoldingRegisters env a c s)"
| "perform env (ReadHoldingRegistersWithPriority a c p) s =
     finish Registers (readHoldingRegistersWithPriority env a c p s)"
| "perform env (ReadInputRegisters a c) s = finish Registers (readInputRegisters env a c s)"
| "perform env (ReadInputRegistersWithPriority a c p) s =
     finish Registers (readInputRegistersWithPriority env a c p s)"
| "perform env (WriteSingleRegister a v) s = finish (\<lambda>u. Done) (writeSingleRegister env a v s)"
| "perform env (WriteSingleRegisterWithPriority a v p) s =
     finish (\<lambda>u. Done) (writeSingleRegisterWithPriority env a v p s)"
| "perform env (WriteMultipleRegisters a vs) s =
     finish (\<lambda>u. Done) (writeMultipleRegisters env a vs s)"
| "perform env (ReadCoils a c) s = finish Coils (readCoils env a c s)"
| "perform env (ReadDiscreteInputs a c) s = finish Coils (readDiscreteInputs env a c s)"
| "perform env (WriteSingleCoil a v) s = finish (\<lambda>u. Done) (writeSingleCoil env a v s)"
| "perform env (WriteSingleCoilWithPriority a v p) s =
     finish (\<lambda>u. Done) (writeSingleCoilWithPriority env a v p s)"
| "perform env (WriteMultipleCoils a vs) s = finish (\<lambda>u. Done) (writeMultipleCoils env a vs s)"

text \<open>
  The specification's parameter bounds, in its own words: register reads take 1 to 125
  registers, a register write 1 to 123 values, coil and discrete-input reads 1 to 2000
  bits, a coil write 1 to 1968 values. The single-value writes have no count.
\<close>

fun spec_out_of_bounds :: "Operation \<Rightarrow> bool" where
  "spec_out_of_bounds (ReadHoldingRegisters a c) = (unat c = 0 \<or> unat c > 125)"
| "spec_out_of_bounds (ReadHoldingRegistersWithPriority a c p) = (unat c = 0 \<or> unat c > 125)"
| "spec_out_of_bounds (ReadInputRegisters a c) = (unat c = 0 \<or> unat c > 125)"
| "spec_out_of_bounds (ReadInputRegistersWithPriority a c p) = (unat c = 0 \<or> unat c > 125)"
| "spec_out_of_bounds (WriteMultipleRegisters a vs) = (length vs = 0 \<or> length vs > 123)"
| "spec_out_of_bounds (ReadCoils a c) = (unat c = 0 \<or> unat c > 2000)"
| "spec_out_of_bounds (ReadDiscreteInputs a c) = (unat c = 0 \<or> unat c > 2000)"
| "spec_out_of_bounds (WriteMultipleCoils a vs) = (length vs = 0 \<or> length vs > 1968)"
| "spec_out_of_bounds (WriteSingleRegister a v) = False"
| "spec_out_of_bounds (WriteSingleRegisterWithPriority a v p) = False"
| "spec_out_of_bounds (WriteSingleCoil a v) = False"
| "spec_out_of_bounds (WriteSingleCoilWithPriority a v p) = False"

text \<open>
  The steps the eight operations share once their parameters have passed: take the bus
  mutex, make the sync resources, send, wait, give the mutex back. Every operation is
  this with its own function code and payload (lemma \<open>perform_transaction\<close> below).
\<close>

definition transaction ::
  "Env \<Rightarrow> u8 \<Rightarrow> u16 \<Rightarrow> u16 \<Rightarrow> ModbusPriority \<Rightarrow> u16 list option \<Rightarrow> System
   \<Rightarrow> (ModbusError + u8 list) \<times> System" where
  "transaction env fc addr count priority data s =
     (case acquireBusMutex env s of
        (False, s1) \<Rightarrow> (Inl MUTEX_ERROR, s1)
      | (True, s1) \<Rightarrow>
          (case sendRequestWithPriority env fc addr count priority data
                  (s1\<lparr>dev := ensureSyncReady env (dev s1)\<rparr>) of
             (res, s3) \<Rightarrow>
               if res \<noteq> ESP_OK then (Inl COMMUNICATION_ERROR, releaseBusMutex s3)
               else
                 (case waitForResponse env s3 of
                    (result, s4) \<Rightarrow> (result, releaseBusMutex s4))))"

text \<open>Reading a trace: the events of the bus mutex, and the others.\<close>

fun isBusEvent :: "Event \<Rightarrow> bool" where
  "isBusEvent BusTake = True"
| "isBusEvent BusGive = True"
| "isBusEvent (Dispatch rq fl) = False"
| "isBusEvent (Wait fl) = False"

fun isDispatch :: "Event \<Rightarrow> bool" where
  "isDispatch (Dispatch rq fl) = True"
| "isDispatch BusTake = False"
| "isDispatch BusGive = False"
| "isDispatch (Wait fl) = False"

text \<open>
  Of the events that are not the mutex's: a wait comes only after a dispatch, and it
  starts with both flags clear.
\<close>

fun isClearedWait :: "Event \<Rightarrow> bool" where
  "isClearedWait (Wait w) = (w = (False, False))"
| "isClearedWait BusTake = False"
| "isClearedWait BusGive = False"
| "isClearedWait (Dispatch rq fl) = False"

definition dispatchThenClearedWait :: "Event list \<Rightarrow> bool" where
  "dispatchThenClearedWait ev =
     (case ev of
        [] \<Rightarrow> True
      | e # rest \<Rightarrow>
          isDispatch e \<and>
          (case rest of
             [] \<Rightarrow> True
           | w # after \<Rightarrow> isClearedWait w \<and> after = []))"

text \<open>
  The shapes one call can add to the trace: nothing; the mutex taken and given back
  around nothing, around one dispatch, or around one dispatch followed by one wait that
  starts with both flags clear.
\<close>

definition callShape :: "Event list \<Rightarrow> bool" where
  "callShape ev =
     (ev = [] \<or>
      (2 \<le> length ev \<and> hd ev = BusTake \<and> last ev = BusGive \<and>
       dispatchThenClearedWait (butlast (tl ev))))"

subsection \<open>Conditions and concrete runs\<close>

text \<open>
  The bus mutex can be had by this call: it exists, nobody holds it, and the
  environment does not make the take time out.
\<close>

definition busAvailable :: "Env \<Rightarrow> System \<Rightarrow> bool" where
  "busAvailable env s = (busMutex (registry s) = Some False \<and> \<not> busTakeFails env)"

text \<open>
  The sync resources at rest, as every completed wait that was answered in time leaves
  them: the sync mutex is not held and the sync semaphore, if there is one, is empty.
\<close>

definition idle :: "'a ModbusDevice_scheme \<Rightarrow> bool" where
  "idle d =
     (syncMutex d \<noteq> Some True \<and>
      (case syncContext d of None \<Rightarrow> True | Some sc \<Rightarrow> semaphore sc = Some False))"

text \<open>
  Environments in which every resource is there and the transport accepts the request:
  one where the transport answers with one data callback while the caller waits, one
  where the same callback runs earlier, after the dispatch has returned and before the
  caller has entered \<open>waitForResponse\<close>, and one where the transport never calls back.
\<close>

definition env_response :: "FunctionCode \<Rightarrow> u16 \<Rightarrow> u8 list \<Rightarrow> Env" where
  "env_response fc startingAddress payload =
     \<lparr> busTakeFails = False, semaphoreCreateFails = False, mutexCreateFails = False,
       allocFails = False, rtuAccepts = True, earlyCallbacks = [],
       waitCallbacks = [OnData False fc startingAddress (Bytes payload)] \<rparr>"

definition env_early_response :: "FunctionCode \<Rightarrow> u16 \<Rightarrow> u8 list \<Rightarrow> Env" where
  "env_early_response fc startingAddress payload =
     \<lparr> busTakeFails = False, semaphoreCreateFails = False, mutexCreateFails = False,
       allocFails = False, rtuAccepts = True,
       earlyCallbacks = [OnData False fc startingAddress (Bytes payload)],
       waitCallbacks = [] \<rparr>"

definition env_silent :: Env where
  "env_silent =
     \<lparr> busTakeFails = False, semaphoreCreateFails = False, mutexCreateFails = False,
       allocFails = False, rtuAccepts = True, earlyCallbacks = [], waitCallbacks = [] \<rparr>"

text \<open>A device at address 1 in a fresh system whose registry knows the transport.\<close>

definition device1 :: System where
  "device1 = (System_init 0 1)\<lparr>registry := setModbusRTU False True ModbusRegistry_ctor\<rparr>"

text \<open>A registry in which device 7 has been registered at address 1.\<close>

definition registry1 :: ModbusRegistry where
  "registry1 = snd (ModbusRegistry_registerDevice False 1 (Some 7) ModbusRegistry_ctor)"

text \<open>
  A queued device at address 1 that has made its sync resources (as its first
  synchronous transaction does), has reached READY and has enabled async mode with a
  queue of depth 10.
\<close>

definition queued1 :: QueuedModbusDevice where
  "queued1 =
     snd (enableAsync False 10
            (ensureSyncReady env_silent ((QueuedModbusDevice_ctor 0 1)\<lparr>initPhase := READY\<rparr>)))"

text \<open>
  That device after the transport has delivered one response of two bytes to it, and the
  system of \<open>device1\<close> with this device in it. The synchronous operations are members of
  \<open>ModbusDevice\<close> and work on its fields only, so the system holds the device's
  \<open>ModbusDevice\<close> part.
\<close>

definition queued1_answered :: QueuedModbusDevice where
  "queued1_answered =
     Queued_handleData QueuedModbusDevice_onQueueFull 0 False READ_HOLD_REGISTER 0x10
       (Bytes [0x00, 0x0A]) queued1"

definition after_async_response :: System where
  "after_async_response = device1\<lparr>dev := ModbusDevice.truncate queued1_answered\<rparr>"

text \<open>
  The system after one read that the transport never answered, after one read that it
  answered with eight bytes, and with the device registered and READY.
\<close>

definition after_timeout :: System where
  "after_timeout = snd (perform env_silent (ReadHoldingRegisters 0x10 4) device1)"

definition after_response :: System where
  "after_response =
     snd (perform (env_response READ_HOLD_REGISTER 0x10 [0x00,0x0A,0x00,0x14,0x00,0x1E,0x00,0x28])
            (ReadHoldingRegisters 0x10 4) device1)"

definition ready1 :: System where
  "ready1 = snd (ModbusDevice_registerDevice False (setInitPhase READY device1))"

section \<open>Construction\<close>

text \<open>
  C9. Constructing a device with bus address 0 or with an address greater than 247
  yields a device whose effective address, as the address accessor returns it, is 1;
  constructing with an address in [1,247] yields a device whose effective address is
  the given address.
\<close>

theorem ctor_effective_address:
  "getServerAddress (ModbusDevice_ctor this a) = (if a = 0 \<or> 247 < a then 1 else a)"
  by (simp add: getServerAddress_def ModbusDevice_ctor_def MODBUS_MAX_SLAVE_ADDRESS_def)

section \<open>The transaction core\<close>

declare perform.simps [simp del] registerLoop.simps [simp del] coilLoop.simps [simp del]

subsection \<open>The steps of a transaction\<close>

lemma xSemaphoreTake_cases:
  "xSemaphoreTake f h = (if h = Some False \<and> \<not> f then (True, Some True) else (False, h))"
  by (cases h; cases f) (auto simp: xSemaphoreTake_def)

lemma acquire_True:
  "acquireBusMutex env s = (True, s1) \<Longrightarrow>
     busMutex (registry s) = Some False \<and> \<not> busTakeFails env \<and>
     s1 = s\<lparr>modbusMutex := True, registry := (registry s)\<lparr>busMutex := Some True\<rparr>,
            trace := trace s @ [BusTake]\<rparr>"
  by (auto simp: acquireBusMutex_def xSemaphoreTake_cases Let_def split: if_splits)

lemma acquire_False:
  "acquireBusMutex env s = (False, s1) \<Longrightarrow>
     (busMutex (registry s) \<noteq> Some False \<or> busTakeFails env) \<and>
     dev s1 = dev s \<and> registry s1 = registry s \<and> trace s1 = trace s \<and>
     eventGroups s1 = eventGroups s"
  by (auto simp: acquireBusMutex_def xSemaphoreTake_cases Let_def split: if_splits)

lemma rtuRequest_eq:
  "rtuRequest env fc a c pl p s =
     (if rtuAccepts env then ESP_OK else ESP_FAIL,
      s\<lparr>trace := trace s @ [Dispatch \<lparr> rq_slave = serverAddress (dev s), rq_fc = fc, rq_addr = a,
                       rq_count = c, rq_payload = pl, rq_priority = p \<rparr> (syncFlags (dev s))]\<rparr>)"
  by (simp add: rtuRequest_def)

lemma send_post:
  "sendRequestWithPriority env fc a c p d s = (res, s') \<Longrightarrow>
     registry s' = registry s \<and> modbusMutex s' = modbusMutex s \<and>
     eventGroups s' = eventGroups s \<and>
     syncContext (dev s') = syncContext (dev s) \<and> syncMutex (dev s') = syncMutex (dev s) \<and>
     (trace s' = trace s \<or> (\<exists>rq. trace s' = trace s @ [Dispatch rq (syncFlags (dev s))])) \<and>
     (res = ESP_OK \<longrightarrow>
        rtuAccepts env \<and> (\<exists>rq. trace s' = trace s @ [Dispatch rq (syncFlags (dev s))])) \<and>
     (\<not> modbusRTU (registry s) \<longrightarrow> res = ESP_FAIL \<and> s' = s) \<and>
     (modbusRTU (registry s) \<longrightarrow>
        totalRequests (dev s') = totalRequests (dev s) + 1 \<and>
        lastError (dev s') = (if res \<noteq> ESP_OK then COMMUNICATION_ERROR else lastError (dev s))) \<and>
     timeouts (dev s') = timeouts (dev s)"
  unfolding sendRequestWithPriority_def rtuRequest_eq
  by (auto split: if_splits option.splits prod.splits)

lemma ensureSyncReady_frame:
  "totalRequests (ensureSyncReady env d) = totalRequests d"
  "lastError (ensureSyncReady env d) = lastError d"
  "serverAddress (ensureSyncReady env d) = serverAddress d"
  "timeouts (ensureSyncReady env d) = timeouts d"
  by (simp_all add: ensureSyncReady_def Let_def)

lemma syncFlags_ensureSyncReady: "syncFlags (ensureSyncReady env d) = syncFlags d"
  by (auto simp: syncFlags_def ensureSyncReady_def Let_def split: option.splits)

lemma handleData_sync_frame:
  "totalRequests (handleData_sync lf fc buf d) = totalRequests d"
  "lastError (handleData_sync lf fc buf d) = lastError d"
  "timeouts (handleData_sync lf fc buf d) = timeouts d"
  by (auto simp: handleData_sync_def Let_def xSemaphoreTake_cases split: option.splits)

text \<open>
  No callback touches the request counter or the timeout counter; the blocking take
  does not either.
\<close>

lemma deliver_totalRequests: "totalRequests (deliver cb d) = totalRequests d"
  by (cases cb)
     (auto simp: handleData_def handleError_def handleData_sync_frame Let_def
        ModbusDevice_handleModbusResponse_def ModbusDevice_handleModbusError_def
        xSemaphoreTake_cases split: option.splits)

lemma deliver_timeouts: "timeouts (deliver cb d) = timeouts d"
  by (cases cb)
     (auto simp: handleData_def handleError_def handleData_sync_frame Let_def
        ModbusDevice_handleModbusResponse_def ModbusDevice_handleModbusError_def
        xSemaphoreTake_cases split: option.splits)

lemma deliverAll_totalRequests: "totalRequests (deliverAll cbs d) = totalRequests d"
  by (induction cbs arbitrary: d) (simp_all add: deliver_totalRequests)

lemma deliverAll_timeouts: "timeouts (deliverAll cbs d) = timeouts d"
  by (induction cbs arbitrary: d) (simp_all add: deliver_timeouts)

lemma takeSignal_frame:
  "totalRequests (takeSignal d) = totalRequests d"
  "lastError (takeSignal d) = lastError d"
  "timeouts (takeSignal d) = timeouts d"
  by (simp_all add: takeSignal_def split: option.splits)

lemma awaitSemaphore_totalRequests:
  "totalRequests (snd (awaitSemaphore cbs d)) = totalRequests d"
  by (induction cbs arbitrary: d) (simp_all add: deliver_totalRequests takeSignal_frame)

lemma awaitSemaphore_timeouts:
  "timeouts (snd (awaitSemaphore cbs d)) = timeouts d"
  by (induction cbs arbitrary: d) (simp_all add: deliver_timeouts takeSignal_frame)

text \<open>
  \<open>waitForResponse\<close> leaves the request counter alone. It changes the timeout counter
  in its timeout branch only, where it adds one, stores TIMEOUT as the last error and
  returns TIMEOUT.
\<close>

lemma wait_post:
  "waitForResponse env s = (r, s') \<Longrightarrow>
     registry s' = registry s \<and> modbusMutex s' = modbusMutex s \<and>
     eventGroups s' = eventGroups s \<and>
     totalRequests (dev s') = totalRequests (dev s) \<and>
     (trace s' = trace s \<or> trace s' = trace s @ [Wait (False, False)]) \<and>
     (timeouts (dev s') = timeouts (dev s) \<or>
      timeouts (dev s') = timeouts (dev s) + 1 \<and> r = Inl TIMEOUT \<and> lastError (dev s') = TIMEOUT)"
proof -
  assume w: "waitForResponse env s = (r, s')"
  define d0 where "d0 = deliverAll (earlyCallbacks env) (dev s)"
  have t0: "totalRequests d0 = totalRequests (dev s)" "timeouts d0 = timeouts (dev s)"
    by (simp_all add: d0_def deliverAll_totalRequests deliverAll_timeouts)
  show ?thesis
  proof (cases "syncContext d0")
    case None
    with w show ?thesis
      by (auto simp: waitForResponse_def Let_def d0_def[symmetric] t0)
  next
    case (Some sc)
    show ?thesis
    proof (cases "semaphore sc = None")
      case True
      with w Some show ?thesis
        by (auto simp: waitForResponse_def Let_def d0_def[symmetric] t0)
    next
      case False
      define cleared where
        "cleared = d0\<lparr>syncContext := Some (sc\<lparr>responseReceived := False,
                     errorOccurred := False, responseData := []\<rparr>)\<rparr>"
      obtain taken d2 where a: "awaitSemaphore (waitCallbacks env) cleared = (taken, d2)"
        by (cases "awaitSemaphore (waitCallbacks env) cleared")
      have t2: "totalRequests d2 = totalRequests (dev s)"
        using awaitSemaphore_totalRequests[of "waitCallbacks env" cleared] a
        by (simp add: cleared_def t0)
      have o2: "timeouts d2 = timeouts (dev s)"
        using awaitSemaphore_timeouts[of "waitCallbacks env" cleared] a
        by (simp add: cleared_def t0)
      have fl: "syncFlags cleared = (False, False)"
        by (simp add: syncFlags_def cleared_def)
      from w Some False a show ?thesis
        using t2 o2 fl
        by (auto simp: waitForResponse_def Let_def d0_def[symmetric] cleared_def[symmetric]
              split: option.splits if_splits)
    qed
  qed
qed

lemma callShape_simps:
  "callShape []"
  "callShape [BusTake, BusGive]"
  "callShape [BusTake, Dispatch rq fl, BusGive]"
  "callShape [BusTake, Dispatch rq fl, Wait (False, False), BusGive]"
  by (simp_all add: callShape_def dispatchThenClearedWait_def)

lemma transaction_post:
  assumes t: "transaction env fc a c p d s = (r, s')"
  shows "busMutex (registry s') = busMutex (registry s)"
    and "\<exists>ev. trace s' = trace s @ ev \<and> callShape ev \<and>
              (\<forall>rq fl. Dispatch rq fl \<in> set ev \<longrightarrow> fl = syncFlags (dev s))"
    and "modbusRTU (registry s') = modbusRTU (registry s)"
    and "totalRequests (dev s') =
           (if busAvailable env s \<and> modbusRTU (registry s) then totalRequests (dev s) + 1
            else totalRequests (dev s))"
    and "\<not> busAvailable env s \<Longrightarrow> r = Inl MUTEX_ERROR \<and> trace s' = trace s \<and> dev s' = dev s"
    and "busAvailable env s \<Longrightarrow> \<exists>rest. trace s' = trace s @ BusTake # rest"
    and "busAvailable env s \<Longrightarrow> modbusRTU (registry s) \<Longrightarrow> \<not> rtuAccepts env \<Longrightarrow>
           r = Inl COMMUNICATION_ERROR \<and> lastError (dev s') = COMMUNICATION_ERROR"
    and "timeouts (dev s') = timeouts (dev s) \<or>
         timeouts (dev s') = timeouts (dev s) + 1 \<and> r = Inl TIMEOUT \<and> lastError (dev s') = TIMEOUT"
proof -
  obtain b s1 where acq: "acquireBusMutex env s = (b, s1)"
    by (cases "acquireBusMutex env s")
  have all: "busMutex (registry s') = busMutex (registry s) \<and>
    (\<exists>ev. trace s' = trace s @ ev \<and> callShape ev \<and>
              (\<forall>rq fl. Dispatch rq fl \<in> set ev \<longrightarrow> fl = syncFlags (dev s))) \<and>
    modbusRTU (registry s') = modbusRTU (registry s) \<and>
    totalRequests (dev s') =
           (if busAvailable env s \<and> modbusRTU (registry s) then totalRequests (dev s) + 1
            else totalRequests (dev s)) \<and>
    (\<not> busAvailable env s \<longrightarrow> r = Inl MUTEX_ERROR \<and> trace s' = trace s \<and> dev s' = dev s) \<and>
    (busAvailable env s \<longrightarrow> (\<exists>rest. trace s' = trace s @ BusTake # rest)) \<and>
    (busAvailable env s \<and> modbusRTU (registry s) \<and> \<not> rtuAccepts env \<longrightarrow>
           r = Inl COMMUNICATION_ERROR \<and> lastError (dev s') = COMMUNICATION_ERROR) \<and>
    (timeouts (dev s') = timeouts (dev s) \<or>
     timeouts (dev s') = timeouts (dev s) + 1 \<and> r = Inl TIMEOUT \<and> lastError (dev s') = TIMEOUT)"
  proof (cases b)
    case False
    with acq have acqF: "acquireBusMutex env s = (False, s1)" by simp
    with t have "r = Inl MUTEX_ERROR" "s' = s1" by (auto simp: transaction_def)
    with acquire_False[OF acqF] show ?thesis
      by (auto simp: busAvailable_def callShape_simps)
  next
    case True
    with acq have acqT: "acquireBusMutex env s = (True, s1)" by simp
    note a1 = acquire_True[OF acqT]
    define s2 where "s2 = s1\<lparr>dev := ensureSyncReady env (dev s1)\<rparr>"
    obtain res s3 where snd: "sendRequestWithPriority env fc a c p d s2 = (res, s3)"
      by (cases "sendRequestWithPriority env fc a c p d s2")
    note sp = send_post[OF snd]
    have s2_facts: "registry s2 = (registry s)\<lparr>busMutex := Some True\<rparr>" "modbusMutex s2"
      "trace s2 = trace s @ [BusTake]" "totalRequests (dev s2) = totalRequests (dev s)"
      "lastError (dev s2) = lastError (dev s)" "syncFlags (dev s2) = syncFlags (dev s)"
      "timeouts (dev s2) = timeouts (dev s)"
      using a1 by (simp_all add: s2_def ensureSyncReady_frame syncFlags_ensureSyncReady)
    have acqd: "busAvailable env s" using a1 by (simp add: busAvailable_def)
    show ?thesis
    proof (cases "res = ESP_OK")
      case False
      with t acqT snd have r: "r = Inl COMMUNICATION_ERROR" "s' = releaseBusMutex s3"
        by (auto simp: transaction_def s2_def[symmetric])
      from sp s2_facts a1 r acqd False show ?thesis
        by (auto simp: releaseBusMutex_def callShape_simps xSemaphoreGive_def)
    next
      case ok: True
      obtain result s4 where w: "waitForResponse env s3 = (result, s4)"
        by (cases "waitForResponse env s3")
      note wp = wait_post[OF w]
      from t acqT snd ok w have r: "r = result" "s' = releaseBusMutex s4"
        by (auto simp: transaction_def s2_def[symmetric])
      from ok sp have rtu: "modbusRTU (registry s)" using s2_facts by auto
      from sp wp s2_facts a1 r acqd ok rtu show ?thesis
        by (auto simp: releaseBusMutex_def callShape_simps xSemaphoreGive_def)
    qed
  qed
  from all show "busMutex (registry s') = busMutex (registry s)"
    and "\<exists>ev. trace s' = trace s @ ev \<and> callShape ev \<and>
              (\<forall>rq fl. Dispatch rq fl \<in> set ev \<longrightarrow> fl = syncFlags (dev s))"
    and "modbusRTU (registry s') = modbusRTU (registry s)"
    and "totalRequests (dev s') =
           (if busAvailable env s \<and> modbusRTU (registry s) then totalRequests (dev s) + 1
            else totalRequests (dev s))"
    and "\<not> busAvailable env s \<Longrightarrow> r = Inl MUTEX_ERROR \<and> trace s' = trace s \<and> dev s' = dev s"
    and "busAvailable env s \<Longrightarrow> \<exists>rest. trace s' = trace s @ BusTake # rest"
    and "busAvailable env s \<Longrightarrow> modbusRTU (registry s) \<Longrightarrow> \<not> rtuAccepts env \<Longrightarrow>
           r = Inl COMMUNICATION_ERROR \<and> lastError (dev s') = COMMUNICATION_ERROR"
    and "timeouts (dev s') = timeouts (dev s) \<or>
         timeouts (dev s') = timeouts (dev s) + 1 \<and> r = Inl TIMEOUT \<and> lastError (dev s') = TIMEOUT"
    by blast+
qed

subsection \<open>Every operation is a transaction behind its parameter check\<close>

lemma finish_simps [simp]:
  "finish f (Inl e, s) = (Inl e, s)" "finish f (Inr v, s) = (Inr (f v), s)"
  by (simp_all add: finish_def)

lemma finish_finish: "finish g (finish f x) = finish (\<lambda>v. g (f v)) x"
  by (simp add: finish_def split: sum.splits)

lemma finish_snd: "snd (finish f x) = snd x"
  by (simp add: finish_def)


lemma transaction_fold:
  "(case acquireBusMutex env s of
      (False, s1) \<Rightarrow> (Inl MUTEX_ERROR, s1)
    | (True, s1) \<Rightarrow>
        let s2 = s1\<lparr>dev := ensureSyncReady env (dev s1)\<rparr> in
        (case sendRequestWithPriority env fc a c p d s2 of
           (res, s3) \<Rightarrow>
             if res \<noteq> ESP_OK then (Inl COMMUNICATION_ERROR, releaseBusMutex s3)
             else
               (case waitForResponse env s3 of
                  (result, s4) \<Rightarrow>
                    let s5 = releaseBusMutex s4 in
                    (case result of
                       Inl e \<Rightarrow> (Inl e, s5)
                     | Inr data \<Rightarrow> (Inr (f data), s5)))))
   = finish f (transaction env fc a c p d s)"
proof -
  obtain b s1 where acq: "acquireBusMutex env s = (b, s1)"
    by (cases "acquireBusMutex env s")
  obtain res s3 where snd:
    "sendRequestWithPriority env fc a c p d (s1\<lparr>dev := ensureSyncReady env (dev s1)\<rparr>) = (res, s3)"
    by (cases "sendRequestWithPriority env fc a c p d (s1\<lparr>dev := ensureSyncReady env (dev s1)\<rparr>)")
  obtain result s4 where w: "waitForResponse env s3 = (result, s4)"
    by (cases "waitForResponse env s3")
  show ?thesis
    by (cases b; cases "res = ESP_OK"; cases result)
       (simp_all add: transaction_def acq snd w Let_def)
qed

lemma readHoldingRegistersWithPriority_eq:
  "readHoldingRegistersWithPriority env a c p s =
     (if c = 0 \<or> c > 125 then (Inl INVALID_PARAMETER, s)
      else finish (\<lambda>data. registerLoop data 0 []) (transaction env 0x03 a c p None s))"
  unfolding readHoldingRegistersWithPriority_def sendRequestInternal_def transaction_fold
    MODBUS_MAX_REGISTER_COUNT_def MODBUS_MAX_WRITE_REGISTER_COUNT_def
    MODBUS_MAX_COIL_COUNT_def MODBUS_MAX_WRITE_COIL_COUNT_def
  by (rule refl)

lemma readInputRegistersWithPriority_eq:
  "readInputRegistersWithPriority env a c p s =
     (if c = 0 \<or> c > 125 then (Inl INVALID_PARAMETER, s)
      else finish (\<lambda>data. registerLoop data 0 []) (transaction env 0x04 a c p None s))"
  unfolding readInputRegistersWithPriority_def sendRequestInternal_def transaction_fold
    MODBUS_MAX_REGISTER_COUNT_def MODBUS_MAX_WRITE_REGISTER_COUNT_def
    MODBUS_MAX_COIL_COUNT_def MODBUS_MAX_WRITE_COIL_COUNT_def
  by (rule refl)

lemma writeSingleRegisterWithPriority_eq:
  "writeSingleRegisterWithPriority env a v p s =
     finish (\<lambda>data. ()) (transaction env 0x06 a 1 p (Some [v]) s)"
  unfolding writeSingleRegisterWithPriority_def sendRequestInternal_def transaction_fold
    MODBUS_MAX_REGISTER_COUNT_def MODBUS_MAX_WRITE_REGISTER_COUNT_def
    MODBUS_MAX_COIL_COUNT_def MODBUS_MAX_WRITE_COIL_COUNT_def
  by (rule refl)

lemma writeMultipleRegisters_eq:
  "writeMultipleRegisters env a vs s =
     (if vs = [] \<or> length vs > 123 then (Inl INVALID_PARAMETER, s)
      else finish (\<lambda>data. ()) (transaction env 0x10 a (of_nat (length vs)) RELAY (Some vs) s))"
  unfolding writeMultipleRegisters_def sendRequestInternal_def transaction_fold
    MODBUS_MAX_REGISTER_COUNT_def MODBUS_MAX_WRITE_REGISTER_COUNT_def
    MODBUS_MAX_COIL_COUNT_def MODBUS_MAX_WRITE_COIL_COUNT_def
  by (rule refl)

lemma readCoils_eq:
  "readCoils env a c s =
     (if c = 0 \<or> c > 2000 then (Inl INVALID_PARAMETER, s)
      else finish (\<lambda>data. coilLoop data c 0 []) (transaction env 0x01 a c RELAY None s))"
  unfolding readCoils_def sendRequestInternal_def transaction_fold
    MODBUS_MAX_REGISTER_COUNT_def MODBUS_MAX_WRITE_REGISTER_COUNT_def
    MODBUS_MAX_COIL_COUNT_def MODBUS_MAX_WRITE_COIL_COUNT_def
  by (rule refl)

lemma readDiscreteInputs_eq:
  "readDiscreteInputs env a c s =
     (if c = 0 \<or> c > 2000 then (Inl INVALID_PARAMETER, s)
      else finish (\<lambda>data. coilLoop data c 0 []) (transaction env 0x02 a c RELAY None s))"
  unfolding readDiscreteInputs_def sendRequestInternal_def transaction_fold
    MODBUS_MAX_REGISTER_COUNT_def MODBUS_MAX_WRITE_REGISTER_COUNT_def
    MODBUS_MAX_COIL_COUNT_def MODBUS_MAX_WRITE_COIL_COUNT_def
  by (rule refl)

lemma writeSingleCoilWithPriority_eq:
  "writeSingleCoilWithPriority env a v p s =
     finish (\<lambda>data. ()) (transaction env 0x05 a 1 p (Some [if v then 1 else 0]) s)"
  unfolding writeSingleCoilWithPriority_def sendRequestInternal_def transaction_fold
    MODBUS_MAX_REGISTER_COUNT_def MODBUS_MAX_WRITE_REGISTER_COUNT_def
    MODBUS_MAX_COIL_COUNT_def MODBUS_MAX_WRITE_COIL_COUNT_def
  by (rule refl)

lemma writeMultipleCoils_eq:
  "writeMultipleCoils env a vs s =
     (if vs = [] \<or> length vs > 1968 then (Inl INVALID_PARAMETER, s)
      else finish (\<lambda>data. ()) (transaction env 0x0F a (of_nat (length vs)) RELAY (Some (packCoils vs)) s))"
  unfolding writeMultipleCoils_def sendRequestInternal_def transaction_fold
    MODBUS_MAX_REGISTER_COUNT_def MODBUS_MAX_WRITE_REGISTER_COUNT_def
    MODBUS_MAX_COIL_COUNT_def MODBUS_MAX_WRITE_COIL_COUNT_def
  by (rule refl)

lemmas operation_eqs =
  readHoldingRegistersWithPriority_eq readInputRegistersWithPriority_eq
  writeSingleRegisterWithPriority_eq writeMultipleRegisters_eq readCoils_eq
  readDiscreteInputs_eq writeSingleCoilWithPriority_eq writeMultipleCoils_eq
  readHoldingRegisters_def readInputRegisters_def writeSingleRegister_def
  writeSingleCoil_def

lemma u16_bounds:
  "(c > (125 :: u16)) = (unat c > 125)" "(c > (2000 :: u16)) = (unat c > 2000)"
  "(c = (0 :: u16)) = (unat c = 0)"
  by (simp_all add: word_less_nat_alt unat_eq_0)

lemma perform_out_of_bounds:
  "spec_out_of_bounds op \<Longrightarrow> perform env op s = (Inl INVALID_PARAMETER, s)"
  by (cases op) (simp_all add: perform.simps operation_eqs u16_bounds)

lemma perform_transaction:
  "\<not> spec_out_of_bounds op \<Longrightarrow>
   \<exists>f fc a c p d. perform env op s = finish f (transaction env fc a c p d s)"
  by (cases op) (simp_all add: perform.simps operation_eqs u16_bounds finish_finish, blast+)

subsection \<open>Reading the trace\<close>

lemma isDispatch_not_bus: "isDispatch e \<Longrightarrow> \<not> isBusEvent e"
  by (cases e) simp_all

lemma isClearedWait_not_bus: "isClearedWait e \<Longrightarrow> \<not> isBusEvent e"
  by (cases e) simp_all

lemma dispatchThenClearedWait_no_bus:
  "dispatchThenClearedWait mid \<Longrightarrow> filter isBusEvent mid = [] \<and> filter (\<lambda>e. \<not> isBusEvent e) mid = mid"
  by (auto simp: dispatchThenClearedWait_def isDispatch_not_bus isClearedWait_not_bus
      split: list.splits)

lemma callShape_decomp:
  assumes "callShape ev"
  shows "ev = [] \<or> (\<exists>mid. ev = BusTake # mid @ [BusGive] \<and> dispatchThenClearedWait mid)"
proof (cases "ev = []")
  case True then show ?thesis by simp
next
  case False
  with assms have h: "2 \<le> length ev" "hd ev = BusTake" "last ev = BusGive"
    "dispatchThenClearedWait (butlast (tl ev))"
    by (auto simp: callShape_def)
  from h(1) have ne: "tl ev \<noteq> []" by (cases ev) auto
  from False have "ev = hd ev # tl ev" by simp
  also from ne have "tl ev = butlast (tl ev) @ [last (tl ev)]" by simp
  also from ne False have "last (tl ev) = last ev" by (simp add: last_tl)
  finally have "ev = BusTake # butlast (tl ev) @ [BusGive]" using h(2,3) by simp
  with h(4) show ?thesis by blast
qed

lemma callShape_bus:
  "callShape ev \<Longrightarrow> filter isBusEvent ev = [] \<or> filter isBusEvent ev = [BusTake, BusGive]"
  by (drule callShape_decomp) (auto simp: dispatchThenClearedWait_no_bus)

lemma callShape_calls:
  "callShape ev \<Longrightarrow> dispatchThenClearedWait (filter (\<lambda>e. \<not> isBusEvent e) ev)"
  by (drule callShape_decomp) (auto simp: dispatchThenClearedWait_no_bus, simp add: dispatchThenClearedWait_def)

subsection \<open>Concrete runs\<close>

lemmas core_defs =
  acquireBusMutex_def releaseBusMutex_def ensureSyncReady_def
  sendRequestWithPriority_def rtuRequest_def waitForResponse_def syncFlags_def
  signalled_def takeSignal_def handleData_def handleData_sync_def handleError_def
  ModbusDevice_handleModbusResponse_def ModbusDevice_handleModbusError_def
  xSemaphoreTake_def xSemaphoreGive_def xSemaphoreGiveBinary_def Let_def

lemmas system_defs =
  device1_def System_init_def ModbusDevice_ctor_def ModbusRegistry_ctor_def setModbusRTU_def
  MODBUS_MAX_SLAVE_ADDRESS_def env_silent_def env_response_def env_early_response_def

lemmas eval_defs =
  perform.simps finish_def readHoldingRegisters_def readHoldingRegistersWithPriority_def
  MODBUS_MAX_REGISTER_COUNT_def core_defs system_defs

lemma device1_facts:
  "busMutex (registry device1) = Some False" "modbusRTU (registry device1)"
  "trace device1 = []" "idle (dev device1)" "busAvailable env_silent device1"
  "totalRequests (dev device1) = 0" "lastError (dev device1) = SUCCESS"
  "successfulRequests (dev device1) = 0"
  by (simp_all add: system_defs idle_def busAvailable_def xSemaphoreTake_def xSemaphoreGive_def)

lemma timeout_run:
  "perform env_silent (ReadHoldingRegisters 0x10 4) device1 =
     (Inl TIMEOUT,
      device1\<lparr>dev := (dev device1)\<lparr>
                 lastError := TIMEOUT, totalRequests := 1, timeouts := 1,
                 syncContext := Some \<lparr> responseData = [], responseReceived = False,
                               errorOccurred = False, error = SUCCESS,
                               semaphore = Some False \<rparr>,
                 syncMutex := Some False\<rparr>,
               modbusMutex := True,
               trace := [BusTake,
                         Dispatch \<lparr> rq_slave = 1, rq_fc = 3, rq_addr = 0x10, rq_count = 4,
                           rq_payload = NoPayload, rq_priority = RELAY \<rparr> (False, False),
                         Wait (False, False), BusGive]\<rparr>)"
  by (simp add: eval_defs)




lemma no_transport_facts:
  "busAvailable env_silent (System_init 0 1)" "\<not> modbusRTU (registry (System_init 0 1))"
  "\<not> busAvailable (env_silent\<lparr>busTakeFails := True\<rparr>) device1"
  by (simp_all add: busAvailable_def system_defs)



lemma registerLoop_from:
  "registerLoop data (2 * j) acc =
     acc @ map (\<lambda>k. push_bit 8 (ucast (data ! (2 * k))) OR ucast (data ! (2 * k + 1)))
                  [j..<length data div 2]"
proof (induction "length data div 2 - j" arbitrary: j acc)
  case 0
  then have "\<not> 2 * j + 1 < length data" by arith
  with 0 show ?case by (simp add: registerLoop.simps[of data "2 * j"])
next
  case (Suc n)
  then have lt: "2 * j + 1 < length data" "j < length data div 2" by arith+
  have "registerLoop data (2 * j) acc =
        registerLoop data (2 * Suc j)
          (acc @ [push_bit 8 (ucast (data ! (2 * j))) OR ucast (data ! (2 * j + 1))])"
    using lt by (simp add: registerLoop.simps[of data "2 * j"])
  also have "\<dots> = (acc @ [push_bit 8 (ucast (data ! (2 * j))) OR ucast (data ! (2 * j + 1))])
       @ map (\<lambda>k. push_bit 8 (ucast (data ! (2 * k))) OR ucast (data ! (2 * k + 1)))
                  [Suc j..<length data div 2]"
    using Suc.hyps(2) by (intro Suc.hyps(1)) simp
  finally show ?case using lt by (simp add: upt_conv_Cons)
qed

lemma coilLoop_from:
  "coilLoop data count i acc =
     acc @ map (\<lambda>k. bit (data ! (k div 8)) (k mod 8))
                  [i..<min (unat count) (8 * length data)]"
proof (induction "min (unat count) (8 * length data) - i" arbitrary: i acc)
  case 0
  then have "\<not> (i < unat count \<and> i div 8 < length data)" by (auto simp: min_def split: if_splits)
  then have "coilLoop data count i acc = acc"
    by (subst coilLoop.simps) auto
  with 0 show ?case by simp
next
  case (Suc n)
  then have lt: "i < unat count" "i div 8 < length data" "i < min (unat count) (8 * length data)"
    by (auto simp: min_def split: if_splits)
  have "coilLoop data count i acc =
        coilLoop data count (Suc i) (acc @ [bit (data ! (i div 8)) (i mod 8)])"
    using lt by (subst coilLoop.simps) (simp add: bit_iff_and_push_bit_not_eq_0)
  also have "\<dots> = (acc @ [bit (data ! (i div 8)) (i mod 8)])
       @ map (\<lambda>k. bit (data ! (k div 8)) (k mod 8)) [Suc i..<min (unat count) (8 * length data)]"
    using Suc.hyps(2) by (intro Suc.hyps(1)) simp
  finally show ?case using lt(3) by (simp add: upt_conv_Cons)
qed

lemma registerLoop_all:
  "registerLoop data 0 [] =
     map (\<lambda>k. push_bit 8 (ucast (data ! (2 * k))) OR ucast (data ! (2 * k + 1)))
         [0..<length data div 2]"
  using registerLoop_from[of data 0 "[]"] by simp

lemma coilLoop_all:
  "coilLoop data count 0 [] =
     map (\<lambda>i. bit (data ! (i div 8)) (i mod 8)) [0..<min (unat count) (8 * length data)]"
  using coilLoop_from[of data count 0 "[]"] by simp

lemma be16_no_overlap: "push_bit 8 (ucast (hi :: u8)) OR (ucast (lo :: u8) :: u16) = push_bit 8 (ucast hi) + ucast lo"
  by (rule disjunctive_add[symmetric]) (auto simp: bit_simps dest: bit_imp_le_length)

lemma u8_bound: "unat (b :: u8) < 256"
  using unsigned_less[of b, where ?'a = nat] by simp

lemma unat_ucast_u8: "unat (ucast (b :: u8) :: u16) = unat b"
  using u8_bound[of b] by (simp add: unsigned_ucast_eq take_bit_nat_eq_self)

lemma be16: "unat (push_bit 8 (ucast (hi :: u8)) OR ucast (lo :: u8) :: u16) = 256 * unat hi + unat lo"
proof -
  have "unat (push_bit 8 (ucast hi :: u16)) = take_bit 16 (push_bit 8 (unat hi))"
    by (simp add: unsigned_push_bit_eq unat_ucast_u8)
  also have "\<dots> = 256 * unat hi"
    using u8_bound[of hi] by (simp add: take_bit_nat_eq_self push_bit_eq_mult)
  finally have h: "unat (push_bit 8 (ucast hi :: u16)) = 256 * unat hi" .
  have "unat (push_bit 8 (ucast hi) + ucast lo :: u16) = (256 * unat hi + unat lo) mod 65536"
    by (simp add: unat_word_ariths(1) h unat_ucast_u8)
  also have "\<dots> = 256 * unat hi + unat lo" using u8_bound[of hi] u8_bound[of lo] by simp
  finally show ?thesis by (simp add: be16_no_overlap)
qed

lemma response_run:
  "perform (env_response READ_HOLD_REGISTER 0x10 [0x00,0x0A,0x00,0x14,0x00,0x1E,0x00,0x28])
     (ReadHoldingRegisters 0x10 4) device1 =
     (Inr (Registers [10, 20, 30, 40]),
      device1\<lparr>dev := (dev device1)\<lparr>
                 totalRequests := 1, successfulRequests := 1,
                 syncContext := Some \<lparr> responseData = [0x00,0x0A,0x00,0x14,0x00,0x1E,0x00,0x28],
                               responseReceived = True,
                               errorOccurred = False, error = SUCCESS,
                               semaphore = Some False \<rparr>,
                 syncMutex := Some False\<rparr>,
               modbusMutex := True,
               trace := [BusTake,
                         Dispatch \<lparr> rq_slave = 1, rq_fc = 3, rq_addr = 0x10, rq_count = 4,
                           rq_payload = NoPayload, rq_priority = RELAY \<rparr> (False, False),
                         Wait (False, False), BusGive]\<rparr>)"
  using registerLoop_all[of "[0x00,0x0A,0x00,0x14,0x00,0x1E,0x00,0x28]"]
  by (simp add: eval_defs upt_conv_Cons)

lemma second_run:
  "perform env_silent (ReadHoldingRegisters 0x10 4) after_response =
     (Inl TIMEOUT,
      after_response\<lparr>dev := (dev after_response)\<lparr>
                 lastError := TIMEOUT, totalRequests := 2, timeouts := 1,
                 syncContext := Some \<lparr> responseData = [], responseReceived = False,
                               errorOccurred = False, error = SUCCESS,
                               semaphore = Some False \<rparr>\<rparr>,
               trace := trace after_response @ [BusTake,
                         Dispatch \<lparr> rq_slave = 1, rq_fc = 3, rq_addr = 0x10, rq_count = 4,
                           rq_payload = NoPayload, rq_priority = RELAY \<rparr> (True, False),
                         Wait (False, False), BusGive]\<rparr>)"
  by (simp add: after_response_def response_run) (simp add: eval_defs)

lemma after_response_flags: "syncFlags (dev after_response) = (True, False)"
  by (simp add: after_response_def response_run syncFlags_def)

text \<open>
  The same answer, delivered after the dispatch has returned and before the caller has
  entered \<open>waitForResponse\<close>. On the fresh device the callback stores the bytes, sets
  the flag and gives the semaphore; the clearing then erases bytes and flag, the take
  succeeds at once on the given semaphore and finds no flag. After an answered read
  the flag of that read is still set, so the callback stores nothing and gives nothing,
  and the take runs into its timeout.
\<close>

lemma early_run:
  "perform (env_early_response READ_HOLD_REGISTER 0x10 [0x00,0x0A,0x00,0x14,0x00,0x1E,0x00,0x28])
     (ReadHoldingRegisters 0x10 4) device1 =
     (Inl TIMEOUT,
      device1\<lparr>dev := (dev device1)\<lparr>
                 lastError := TIMEOUT, totalRequests := 1, timeouts := 1,
                 syncContext := Some \<lparr> responseData = [], responseReceived = False,
                               errorOccurred = False, error = SUCCESS,
                               semaphore = Some False \<rparr>,
                 syncMutex := Some False\<rparr>,
               modbusMutex := True,
               trace := [BusTake,
                         Dispatch \<lparr> rq_slave = 1, rq_fc = 3, rq_addr = 0x10, rq_count = 4,
                           rq_payload = NoPayload, rq_priority = RELAY \<rparr> (False, False),
                         Wait (False, False), BusGive]\<rparr>)"
  by (simp add: eval_defs)

lemma early_second_run:
  "perform (env_early_response READ_HOLD_REGISTER 0x10 [0x00,0x0A,0x00,0x14,0x00,0x1E,0x00,0x28])
     (ReadHoldingRegisters 0x10 4) after_response =
     (Inl TIMEOUT,
      after_response\<lparr>dev := (dev after_response)\<lparr>
                 lastError := TIMEOUT, totalRequests := 2, timeouts := 1,
                 syncContext := Some \<lparr> responseData = [], responseReceived = False,
                               errorOccurred = False, error = SUCCESS,
                               semaphore = Some False \<rparr>\<rparr>,
               trace := trace after_response @ [BusTake,
                         Dispatch \<lparr> rq_slave = 1, rq_fc = 3, rq_addr = 0x10, rq_count = 4,
                           rq_payload = NoPayload, rq_priority = RELAY \<rparr> (True, False),
                         Wait (False, False), BusGive]\<rparr>)"
  by (simp add: after_response_def response_run) (simp add: eval_defs)

text \<open>
  A read that the transport answers in time: from a state whose bus mutex is free,
  whose registry knows the transport and whose sync resources are at rest, the
  transaction of a read function code returns the delivered payload and counts one
  success.
\<close>

lemma transaction_response:
  assumes "busMutex (registry s) = Some False" "modbusRTU (registry s)" "idle (dev s)"
    and "payload \<noteq> []" and "fc = 0x01 \<or> fc = 0x02 \<or> fc = 0x03 \<or> fc = 0x04"
  shows "fst (transaction (env_response cfc ca payload) fc a c p None s) = Inr payload \<and>
         successfulRequests (dev (snd (transaction (env_response cfc ca payload) fc a c p None s)))
           = successfulRequests (dev s) + 1"
proof (cases "syncContext (dev s)")
  case None
  with assms show ?thesis
    by (cases "syncMutex (dev s)")
       (auto simp: transaction_def core_defs env_response_def idle_def)
next
  case (Some sc)
  with assms show ?thesis
    by (cases "syncMutex (dev s)")
       (auto simp: transaction_def core_defs env_response_def idle_def)
qed

section \<open>The bus mutex\<close>

text \<open>
  C1. For every synchronous operation, every argument, every environment (invalid
  parameter, bus mutex not obtained, dispatch failure, delivered response, delivered
  error, wait timeout, missing sync resources) and every starting state: the events the
  call adds to the trace contain either no bus-mutex event or exactly one take followed
  by exactly one give, and the bus mutex is in the state it had before the call. So a
  call that took the mutex has given it back when it returns.
\<close>

theorem bus_mutex_released:
  "\<exists>ev. trace (snd (perform env op s)) = trace s @ ev \<and>
         (filter isBusEvent ev = [] \<or> filter isBusEvent ev = [BusTake, BusGive]) \<and>
         busMutex (registry (snd (perform env op s))) = busMutex (registry s)"
proof (cases "spec_out_of_bounds op")
  case True
  then show ?thesis by (simp add: perform_out_of_bounds)
next
  case False
  then obtain f fc a c p d where
    pf: "perform env op s = finish f (transaction env fc a c p d s)"
    using perform_transaction by blast
  obtain r s' where t: "transaction env fc a c p d s = (r, s')"
    by (cases "transaction env fc a c p d s")
  from transaction_post(2)[OF t] obtain ev where
    "trace s' = trace s @ ev" "callShape ev" by blast
  with transaction_post(1)[OF t] callShape_bus[of ev] show ?thesis
    by (auto simp: pf t finish_snd)
qed

text \<open>
  The run of the specification: the transport never calls back, the read ends in
  TIMEOUT with the timeout counted, the mutex has been taken and given once and is
  free, and a read issued right after succeeds.
\<close>

theorem bus_mutex_released_witness:
  "fst (perform env_silent (ReadHoldingRegisters 0x10 4) device1) = Inl TIMEOUT \<and>
   timeouts (dev after_timeout) = 1 \<and>
   (\<exists>ev. trace after_timeout = trace device1 @ ev \<and>
      (filter isBusEvent ev = [] \<or> filter isBusEvent ev = [BusTake, BusGive])) \<and>
   busMutex (registry after_timeout) = Some False \<and>
   fst (perform (env_response READ_HOLD_REGISTER 0x10 [0x00, 0x0A]) (ReadHoldingRegisters 0x10 1)
          after_timeout) = Inr (Registers [10])"
  using bus_mutex_released[of env_silent "ReadHoldingRegisters 0x10 4" device1]
    registerLoop_all[of "[0x00,0x0A]"]
  by (simp add: after_timeout_def timeout_run device1_facts) (simp add: eval_defs upt_conv_Cons)

section \<open>Parameter bounds\<close>

text \<open>
  C2. An operation whose count is outside the specification's bound for it (0 or more
  than 125 registers read, no value or more than 123 registers written, 0 or more than
  2000 coils or discrete inputs read, no value or more than 1968 coils written) returns
  INVALID_PARAMETER and leaves the whole system state as it was: no bus mutex event, no
  request to the transport. An operation whose count is inside the bound passes the
  check: it goes on to the bus mutex, taking it when it can be had and returning
  MUTEX_ERROR when it cannot.
\<close>

theorem parameter_bounds_fail_fast:
  "(spec_out_of_bounds op \<longrightarrow> perform env op s = (Inl INVALID_PARAMETER, s)) \<and>
   (\<not> spec_out_of_bounds op \<longrightarrow>
      (if busAvailable env s
       then \<exists>rest. trace (snd (perform env op s)) = trace s @ BusTake # rest
       else fst (perform env op s) = Inl MUTEX_ERROR))"
proof (intro conjI impI)
  assume "spec_out_of_bounds op"
  then show "perform env op s = (Inl INVALID_PARAMETER, s)" by (rule perform_out_of_bounds)
next
  assume "\<not> spec_out_of_bounds op"
  then obtain f fc a c p d where
    pf: "perform env op s = finish f (transaction env fc a c p d s)"
    using perform_transaction by blast
  obtain r s' where t: "transaction env fc a c p d s = (r, s')"
    by (cases "transaction env fc a c p d s")
  show "if busAvailable env s
       then \<exists>rest. trace (snd (perform env op s)) = trace s @ BusTake # rest
       else fst (perform env op s) = Inl MUTEX_ERROR"
    using transaction_post(5,6)[OF t] by (auto simp: pf t finish_snd)
qed

text \<open>
  \<open>writeMultipleCoils\<close> with no value fails at once and touches nothing; a read of four
  registers passes the check and takes the bus mutex, or returns MUTEX_ERROR when the
  mutex cannot be had.
\<close>

theorem parameter_bounds_fail_fast_witness:
  "spec_out_of_bounds (WriteMultipleCoils 0 []) \<and>
   perform env_silent (WriteMultipleCoils 0 []) device1 = (Inl INVALID_PARAMETER, device1) \<and>
   \<not> spec_out_of_bounds (ReadHoldingRegisters 0x10 4) \<and> busAvailable env_silent device1 \<and>
   (\<exists>rest. trace (snd (perform env_silent (ReadHoldingRegisters 0x10 4) device1))
             = trace device1 @ BusTake # rest) \<and>
   \<not> busAvailable (env_silent\<lparr>busTakeFails := True\<rparr>) device1 \<and>
   fst (perform (env_silent\<lparr>busTakeFails := True\<rparr>) (ReadHoldingRegisters 0x10 4) device1)
     = Inl MUTEX_ERROR"
  using parameter_bounds_fail_fast[of "WriteMultipleCoils 0 []" env_silent device1]
    parameter_bounds_fail_fast[of "ReadHoldingRegisters 0x10 4" env_silent device1]
    parameter_bounds_fail_fast[of "ReadHoldingRegisters 0x10 4"
      "env_silent\<lparr>busTakeFails := True\<rparr>" device1]
  by (simp add: device1_facts no_transport_facts)


section \<open>Counters and the last error\<close>





section \<open>When the result flags are cleared\<close>

text \<open>
  In every synchronous operation the flags are cleared by \<open>waitForResponse\<close>, after the
  request has gone to the transport: of the events a call adds that are not the
  mutex's, a wait comes only after a dispatch and starts with both flags clear, and a
  dispatch happens with the flags exactly as the state before the call had them.
\<close>

lemma clearing_follows_dispatch:
  "\<exists>ev. trace (snd (perform env op s)) = trace s @ ev \<and>
         dispatchThenClearedWait (filter (\<lambda>e. \<not> isBusEvent e) ev) \<and>
         (\<forall>rq fl. Dispatch rq fl \<in> set ev \<longrightarrow> fl = syncFlags (dev s))"
proof (cases "spec_out_of_bounds op")
  case True
  then show ?thesis by (simp add: perform_out_of_bounds dispatchThenClearedWait_def)
next
  case False
  then obtain f fc a c p d where
    pf: "perform env op s = finish f (transaction env fc a c p d s)"
    using perform_transaction by blast
  obtain r s' where t: "transaction env fc a c p d s = (r, s')"
    by (cases "transaction env fc a c p d s")
  from transaction_post(2)[OF t] obtain ev where
    "trace s' = trace s @ ev" "callShape ev"
    "\<forall>rq fl. Dispatch rq fl \<in> set ev \<longrightarrow> fl = syncFlags (dev s)" by blast
  with callShape_calls[of ev] show ?thesis
    by (auto simp: pf t finish_snd)
qed

text \<open>
  C4. The flags are not cleared before the dispatch, and an answer that arrives between
  the dispatch and the clearing is lost. Device 1 reads four registers at 0x10 and the
  transport delivers the eight bytes of the answer as soon as the dispatch has returned,
  before the caller has entered \<open>waitForResponse\<close>. The read returns TIMEOUT; it
  counts a timeout and no success, TIMEOUT is the last error, and the call ends exactly
  as the call that was never answered. The same eight bytes delivered while the caller
  waits are returned as the registers 10, 20, 30, 40. After that answered read the
  response-received flag is still set: the next read hands its request to the transport
  with the flag set, clears it only when its wait starts, and an answer delivered in
  between is dropped again, the read returning TIMEOUT.
\<close>

theorem early_answer_lost:
  "perform (env_early_response READ_HOLD_REGISTER 0x10 [0x00,0x0A,0x00,0x14,0x00,0x1E,0x00,0x28])
     (ReadHoldingRegisters 0x10 4) device1
     = perform env_silent (ReadHoldingRegisters 0x10 4) device1 \<and>
   fst (perform (env_early_response READ_HOLD_REGISTER 0x10
                   [0x00,0x0A,0x00,0x14,0x00,0x1E,0x00,0x28])
          (ReadHoldingRegisters 0x10 4) device1) = Inl TIMEOUT \<and>
   timeouts (dev (snd (perform (env_early_response READ_HOLD_REGISTER 0x10
                                  [0x00,0x0A,0x00,0x14,0x00,0x1E,0x00,0x28])
                         (ReadHoldingRegisters 0x10 4) device1))) = 1 \<and>
   successfulRequests (dev (snd (perform (env_early_response READ_HOLD_REGISTER 0x10
                                            [0x00,0x0A,0x00,0x14,0x00,0x1E,0x00,0x28])
                                   (ReadHoldingRegisters 0x10 4) device1))) = 0 \<and>
   lastError (dev (snd (perform (env_early_response READ_HOLD_REGISTER 0x10
                                   [0x00,0x0A,0x00,0x14,0x00,0x1E,0x00,0x28])
                          (ReadHoldingRegisters 0x10 4) device1))) = TIMEOUT \<and>
   fst (perform (env_response READ_HOLD_REGISTER 0x10 [0x00,0x0A,0x00,0x14,0x00,0x1E,0x00,0x28])
          (ReadHoldingRegisters 0x10 4) device1) = Inr (Registers [10, 20, 30, 40]) \<and>
   syncFlags (dev after_response) = (True, False) \<and>
   trace (snd (perform (env_early_response READ_HOLD_REGISTER 0x10
                          [0x00,0x0A,0x00,0x14,0x00,0x1E,0x00,0x28])
                 (ReadHoldingRegisters 0x10 4) after_response)) =
     trace after_response @
       [BusTake,
        Dispatch \<lparr> rq_slave = 1, rq_fc = 3, rq_addr = 0x10, rq_count = 4,
                   rq_payload = NoPayload, rq_priority = RELAY \<rparr> (True, False),
        Wait (False, False), BusGive] \<and>
   fst (perform (env_early_response READ_HOLD_REGISTER 0x10
                   [0x00,0x0A,0x00,0x14,0x00,0x1E,0x00,0x28])
          (ReadHoldingRegisters 0x10 4) after_response) = Inl TIMEOUT"
  by (simp add: early_run early_second_run timeout_run response_run after_response_flags
        device1_facts)

section \<open>Decoding the payload\<close>

text \<open>
  C6. The register loop turns the payload into its consecutive byte pairs, high byte
  first: value \<open>k\<close> is \<open>256 * data[2k] + data[2k+1]\<close>, and there are
  \<open>length data div 2\<close> values. The coil loop returns bit \<open>i mod 8\<close> of byte
  \<open>i div 8\<close> for \<open>i\<close> below the minimum of the requested count and eight times the
  payload length, so exactly that many booleans. And a read whose non-empty payload
  the transport delivers while the caller waits (bus mutex free, transport known, sync
  resources at rest, count in bounds) returns the decoded payload and counts one
  success.
\<close>

theorem read_decoding:
  "registerLoop data 0 [] =
     map (\<lambda>k. push_bit 8 (ucast (data ! (2 * k))) OR ucast (data ! (2 * k + 1)))
         [0..<length data div 2] \<and>
   length (registerLoop data 0 []) = length data div 2 \<and>
   (\<forall>k < length data div 2.
      unat (registerLoop data 0 [] ! k) = 256 * unat (data ! (2 * k)) + unat (data ! (2 * k + 1))) \<and>
   coilLoop data count 0 [] =
     map (\<lambda>i. bit (data ! (i div 8)) (i mod 8)) [0..<min (unat count) (8 * length data)] \<and>
   length (coilLoop data count 0 []) = min (unat count) (8 * length data) \<and>
   (busMutex (registry s) = Some False \<and> modbusRTU (registry s) \<and> idle (dev s) \<and>
    payload \<noteq> [] \<longrightarrow>
      (c \<noteq> 0 \<and> c \<le> 125 \<longrightarrow>
         fst (readHoldingRegisters (env_response cfc ca payload) a c s)
           = Inr (registerLoop payload 0 []) \<and>
         successfulRequests (dev (snd (readHoldingRegisters (env_response cfc ca payload) a c s)))
           = successfulRequests (dev s) + 1 \<and>
         fst (readInputRegisters (env_response cfc ca payload) a c s)
           = Inr (registerLoop payload 0 [])) \<and>
      (c \<noteq> 0 \<and> c \<le> 2000 \<longrightarrow>
         fst (readCoils (env_response cfc ca payload) a c s) = Inr (coilLoop payload c 0 []) \<and>
         fst (readDiscreteInputs (env_response cfc ca payload) a c s)
           = Inr (coilLoop payload c 0 [])))"
proof (intro conjI allI impI)
  show "registerLoop data 0 [] =
     map (\<lambda>k. push_bit 8 (ucast (data ! (2 * k))) OR ucast (data ! (2 * k + 1)))
         [0..<length data div 2]" by (rule registerLoop_all)
  show "length (registerLoop data 0 []) = length data div 2" by (simp add: registerLoop_all)
  show "coilLoop data count 0 [] =
     map (\<lambda>i. bit (data ! (i div 8)) (i mod 8)) [0..<min (unat count) (8 * length data)]"
    by (rule coilLoop_all)
  show "length (coilLoop data count 0 []) = min (unat count) (8 * length data)"
    by (simp add: coilLoop_all)
next
  fix k assume "k < length data div 2"
  then show "unat (registerLoop data 0 [] ! k) =
      256 * unat (data ! (2 * k)) + unat (data ! (2 * k + 1))"
    by (simp add: registerLoop_all be16)
next
  assume h: "busMutex (registry s) = Some False \<and> modbusRTU (registry s) \<and> idle (dev s) \<and>
    payload \<noteq> []"
  note tr = transaction_response[of s payload _ cfc ca a c]
  {
    assume v: "c \<noteq> 0 \<and> c \<le> 125"
    then have nv: "\<not> (c = 0 \<or> c > 125)" by auto
    from h tr[of "0x03" RELAY]
    show "fst (readHoldingRegisters (env_response cfc ca payload) a c s)
           = Inr (registerLoop payload 0 [])"
      by (simp add: operation_eqs nv finish_def)
    from h tr[of "0x03" RELAY]
    show "successfulRequests (dev (snd (readHoldingRegisters (env_response cfc ca payload) a c s)))
           = successfulRequests (dev s) + 1"
      by (simp add: operation_eqs nv finish_def)
    from h tr[of "0x04" RELAY]
    show "fst (readInputRegisters (env_response cfc ca payload) a c s)
           = Inr (registerLoop payload 0 [])"
      by (simp add: operation_eqs nv finish_def)
  }
  {
    assume v: "c \<noteq> 0 \<and> c \<le> 2000"
    then have nv: "\<not> (c = 0 \<or> c > 2000)" by auto
    from h tr[of "0x01" RELAY]
    show "fst (readCoils (env_response cfc ca payload) a c s) = Inr (coilLoop payload c 0 [])"
      by (simp add: operation_eqs nv finish_def)
    from h tr[of "0x02" RELAY]
    show "fst (readDiscreteInputs (env_response cfc ca payload) a c s)
           = Inr (coilLoop payload c 0 [])"
      by (simp add: operation_eqs nv finish_def)
  }
qed

text \<open>
  The run of the specification: \<open>readHoldingRegisters(0x0010, 4)\<close> answered with
  \<open>{0x00,0x0A,0x00,0x14,0x00,0x1E,0x00,0x28}\<close> is ok with \<open>{10,20,30,40}\<close> and one
  successful request; the byte \<open>0x05\<close> read as three coils is on, off, on, and read as
  twelve coils gives the eight bits there are.
\<close>

theorem read_decoding_witness:
  "busMutex (registry device1) = Some False \<and> modbusRTU (registry device1) \<and>
   idle (dev device1) \<and>
   fst (readHoldingRegisters
          (env_response READ_HOLD_REGISTER 0x10 [0x00,0x0A,0x00,0x14,0x00,0x1E,0x00,0x28])
          0x10 4 device1) = Inr [10, 20, 30, 40] \<and>
   successfulRequests (dev (snd (readHoldingRegisters
          (env_response READ_HOLD_REGISTER 0x10 [0x00,0x0A,0x00,0x14,0x00,0x1E,0x00,0x28])
          0x10 4 device1))) = 1 \<and>
   coilLoop [0x05] 3 0 [] = [True, False, True] \<and>
   fst (readCoils (env_response READ_COIL 0x20 [0x05]) 0x20 3 device1)
     = Inr [True, False, True] \<and>
   fst (readCoils (env_response READ_COIL 0x20 [0x05]) 0x20 12 device1)
     = Inr [True, False, True, False, False, False, False, False]"
  using read_decoding[where data = "[0x05]" and count = 3 and s = device1
      and payload = "[0x00,0x0A,0x00,0x14,0x00,0x1E,0x00,0x28]" and c = 4
      and cfc = READ_HOLD_REGISTER and ca = "0x10" and a = "0x10"]
    read_decoding[where data = "[0x05]" and count = 12 and s = device1
      and payload = "[0x05]" and c = 3 and cfc = READ_COIL and ca = "0x20" and a = "0x20"]
    read_decoding[where data = "[0x05]" and count = 12 and s = device1
      and payload = "[0x05]" and c = 12 and cfc = READ_COIL and ca = "0x20" and a = "0x20"]
    registerLoop_all[of "[0x00,0x0A,0x00,0x14,0x00,0x1E,0x00,0x28]"]
  by (simp add: device1_facts upt_conv_Cons)


section \<open>The queued device\<close>

lemma handleData_sync_queue: "queue (handleData_sync lf fc buf d) = queue d"
  "asyncMode (handleData_sync lf fc buf d) = asyncMode d"
  "initPhase (handleData_sync lf fc buf d) = initPhase d"
  by (auto simp: handleData_sync_def Let_def xSemaphoreTake_cases split: option.splits)

lemmas queued_defs =
  queued1_def enableAsync_def ensureSyncReady_def QueuedModbusDevice_ctor_def ModbusDevice_ctor_def
  env_silent_def ModbusDevice.defs QueuedModbusDevice.defs MODBUS_MAX_SLAVE_ADDRESS_def
  Queued_handleData_def handleData_def QueuedModbusDevice_handleModbusResponse_def
  handleData_sync_def getInitPhase_def ModbusDevice_handleModbusResponse_def
  xSemaphoreTake_def xSemaphoreGive_def xSemaphoreGiveBinary_def xQueueSend_def
  MODBUS_MAX_READ_SIZE_def Let_def

text \<open>
  What a response does to a queued device, whatever its \<open>onQueueFull\<close>. The first part
  of \<open>ModbusDevice::handleData\<close> runs for every device and in every mode, and only then
  does the override choose. In async mode with a queue and outside CONFIGURING the
  override appends a copy of the response (function code, address, at most 252 bytes,
  tick) when the queue has room, and calls \<open>onQueueFull\<close> with the queue as it was when
  it has none. In CONFIGURING, with async mode off or without a queue nothing more is
  done.
\<close>

lemma queued_handleData_routing:
  "(asyncMode d \<and> queue d = Some q \<and> getInitPhase d \<noteq> CONFIGURING \<longrightarrow>
      Queued_handleData onQueueFull tick lf fc addr buf d =
        (if length (items q) < capacity q
         then (handleData_sync lf fc buf d)
                \<lparr>queue := Some (q\<lparr>items := items q @
                    [\<lparr> pk_functionCode = fc_byte fc, pk_address = addr,
                       pk_data = (if \<not> buf_null buf \<and> 0 < min (buf_length buf) 252
                                  then take (min (buf_length buf) 252) (buf_bytes buf)
                                  else []),
                       pk_length = min (buf_length buf) 252,
                       pk_timestamp = tick \<rparr>]\<rparr>)\<rparr>
         else onQueueFull ((handleData_sync lf fc buf d)\<lparr>queue := Some q\<rparr>))) \<and>
   (getInitPhase d = CONFIGURING \<or> \<not> asyncMode d \<or> queue d = None \<longrightarrow>
      Queued_handleData onQueueFull tick lf fc addr buf d = handleData_sync lf fc buf d)"
  by (auto simp: Queued_handleData_def handleData_def QueuedModbusDevice_handleModbusResponse_def
        handleData_sync_queue getInitPhase_def xQueueSend_def Let_def MODBUS_MAX_READ_SIZE_def
        ModbusDevice_handleModbusResponse_def min_def)

text \<open>
  C5. In async mode and outside CONFIGURING a response is not kept from the synchronous
  waiter. The queued device at address 1 is READY, in async mode with an empty queue of
  depth 10, its sync context has the received flag clear and the semaphore empty, and
  its sync mutex is free. The transport delivers a response to a read of holding
  registers at 0x10 with the two bytes 00 0A. Afterwards the received flag is set, the
  sync context holds the two bytes and the semaphore is given, as for a device that is
  not in async mode; the packet is in the queue as well. This holds whatever
  \<open>onQueueFull\<close> the device's class has.
\<close>

theorem async_response_wakes_sync_waiter:
  "asyncMode queued1 \<and> getInitPhase queued1 = READY \<and>
   map_option (\<lambda>q. (capacity q, items q)) (queue queued1) = Some (10, []) \<and>
   syncMutex queued1 = Some False \<and>
   map_option responseReceived (syncContext queued1) = Some False \<and>
   map_option semaphore (syncContext queued1) = Some (Some False) \<and>
   map_option responseReceived
     (syncContext (Queued_handleData onQueueFull 0 False READ_HOLD_REGISTER 0x10
                     (Bytes [0x00, 0x0A]) queued1))
     = Some True \<and>
   map_option responseData
     (syncContext (Queued_handleData onQueueFull 0 False READ_HOLD_REGISTER 0x10
                     (Bytes [0x00, 0x0A]) queued1))
     = Some [0x00, 0x0A] \<and>
   map_option semaphore
     (syncContext (Queued_handleData onQueueFull 0 False READ_HOLD_REGISTER 0x10
                     (Bytes [0x00, 0x0A]) queued1))
     = Some (Some True) \<and>
   map_option (map pk_data \<circ> items)
     (queue (Queued_handleData onQueueFull 0 False READ_HOLD_REGISTER 0x10
               (Bytes [0x00, 0x0A]) queued1))
     = Some [[0x00, 0x0A]]"
  by (simp add: queued_defs)

text \<open>
  What the given semaphore does to the next synchronous read of that device. The read
  of one register is answered in time, with the two bytes 00 0A, and still returns
  TIMEOUT: its wait clears the flags, takes the semaphore that the earlier response
  left given, and finds no flag set. The same read on the device that has received
  nothing returns the register 10.
\<close>

lemma stale_semaphore_times_out:
  "fst (perform (env_response READ_HOLD_REGISTER 0x10 [0x00, 0x0A]) (ReadHoldingRegisters 0x10 1)
          after_async_response) = Inl TIMEOUT \<and>
   fst (perform (env_response READ_HOLD_REGISTER 0x10 [0x00, 0x0A]) (ReadHoldingRegisters 0x10 1)
          device1) = Inr (Registers [10])"
  using registerLoop_all[of "[0x00,0x0A]"]
  by (simp add: after_async_response_def queued1_answered_def queued_defs
        QueuedModbusDevice_onQueueFull_def eval_defs upt_conv_Cons)

section \<open>The lifecycle\<close>

text \<open>
  C7. \<open>setInitPhase\<close> stores the new phase whatever the old one was; when the new
  phase is the old one the system is unchanged; a change into READY with an event
  group and a non-zero ready bit ors the ready bit into that group, a change into ERROR
  with an event group and a non-zero error bit ors the error bit into it; and
  \<open>setEventGroup\<close> on a device that is already READY (or ERROR) with a non-null group
  and a non-zero ready (error) bit ors that bit in at once.
\<close>

theorem lifecycle_notification:
  "initPhase (dev (setInitPhase p s)) = p
   \<and> (initPhase (dev s) = p \<longrightarrow> setInitPhase p s = s)
   \<and> (initPhase (dev s) \<noteq> READY \<and> eventGroup (dev s) \<noteq> 0 \<and> readyBit (dev s) \<noteq> 0 \<longrightarrow>
        eventGroups (setInitPhase READY s) =
          (eventGroups s)(eventGroup (dev s) :=
             eventGroups s (eventGroup (dev s)) OR readyBit (dev s)))
   \<and> (initPhase (dev s) \<noteq> ERROR \<and> eventGroup (dev s) \<noteq> 0 \<and> errorBit (dev s) \<noteq> 0 \<longrightarrow>
        eventGroups (setInitPhase ERROR s) =
          (eventGroups s)(eventGroup (dev s) :=
             eventGroups s (eventGroup (dev s)) OR errorBit (dev s)))
   \<and> (initPhase (dev s) = READY \<and> g \<noteq> 0 \<and> r \<noteq> 0 \<longrightarrow>
        eventGroups (setEventGroup g r e s) = (eventGroups s)(g := eventGroups s g OR r))
   \<and> (initPhase (dev s) = ERROR \<and> g \<noteq> 0 \<and> e \<noteq> 0 \<longrightarrow>
        eventGroups (setEventGroup g r e s) = (eventGroups s)(g := eventGroups s g OR e))"
proof (intro conjI impI)
  show "initPhase (dev (setInitPhase p s)) = p"
    by (simp add: setInitPhase_def Let_def)
next
  assume "initPhase (dev s) = p"
  then show "setInitPhase p s = s"
    by (simp add: setInitPhase_def Let_def)
next
  assume "initPhase (dev s) \<noteq> READY \<and> eventGroup (dev s) \<noteq> 0 \<and> readyBit (dev s) \<noteq> 0"
  then show "eventGroups (setInitPhase READY s) =
          (eventGroups s)(eventGroup (dev s) :=
             eventGroups s (eventGroup (dev s)) OR readyBit (dev s))"
    by (simp add: setInitPhase_def xEventGroupSetBits_def Let_def)
next
  assume "initPhase (dev s) \<noteq> ERROR \<and> eventGroup (dev s) \<noteq> 0 \<and> errorBit (dev s) \<noteq> 0"
  then show "eventGroups (setInitPhase ERROR s) =
          (eventGroups s)(eventGroup (dev s) :=
             eventGroups s (eventGroup (dev s)) OR errorBit (dev s))"
    by (simp add: setInitPhase_def xEventGroupSetBits_def Let_def)
next
  assume "initPhase (dev s) = READY \<and> g \<noteq> 0 \<and> r \<noteq> 0"
  then show "eventGroups (setEventGroup g r e s) = (eventGroups s)(g := eventGroups s g OR r)"
    by (simp add: setEventGroup_def getInitPhase_def xEventGroupSetBits_def Let_def)
next
  assume "initPhase (dev s) = ERROR \<and> g \<noteq> 0 \<and> e \<noteq> 0"
  then show "eventGroups (setEventGroup g r e s) = (eventGroups s)(g := eventGroups s g OR e)"
    by (simp add: setEventGroup_def getInitPhase_def xEventGroupSetBits_def Let_def)
qed

text \<open>
  A device that registers bit 1 and bit 16 of group 1 and then turns READY or ERROR,
  and a device that turns READY or ERROR first and registers afterwards.
\<close>

theorem lifecycle_notification_witness:
  "initPhase (dev (setInitPhase CONFIGURING (System_init 0 1))) = CONFIGURING \<and>
   setInitPhase UNINITIALIZED (System_init 0 1) = System_init 0 1 \<and>
   eventGroups (setInitPhase READY (setEventGroup 1 0x1 0x10000 (System_init 0 1))) 1 = 0x1 \<and>
   eventGroups (setInitPhase ERROR (setEventGroup 1 0x1 0x10000 (System_init 0 1))) 1 = 0x10000 \<and>
   eventGroups (setEventGroup 1 0x1 0x10000 (setInitPhase READY (System_init 0 1))) 1 = 0x1 \<and>
   eventGroups (setEventGroup 1 0x1 0x10000 (setInitPhase ERROR (System_init 0 1))) 1 = 0x10000"
  using lifecycle_notification[where p = CONFIGURING and s = "System_init 0 1"]
    lifecycle_notification[where p = UNINITIALIZED and s = "System_init 0 1"]
    lifecycle_notification[where s = "setEventGroup 1 0x1 0x10000 (System_init 0 1)"]
    lifecycle_notification[where s = "setInitPhase READY (System_init 0 1)"
      and g = 1 and r = "0x1" and e = "0x10000"]
    lifecycle_notification[where s = "setInitPhase ERROR (System_init 0 1)"
      and g = 1 and r = "0x1" and e = "0x10000"]
  by (simp add: System_init_def ModbusDevice_ctor_def setEventGroup_def setInitPhase_def
        getInitPhase_def xEventGroupSetBits_def Let_def)

section \<open>The registry\<close>

lemma registry1_eq:
  "registry1 = \<lparr> deviceMap = [1 \<mapsto> 7], regMutex = Some False, busMutex = Some False,
                  modbusRTU = False \<rparr>"
  by (simp add: registry1_def ModbusRegistry_registerDevice_def ModbusRegistry_ctor_def
        xSemaphoreTake_def xSemaphoreGive_def)

text \<open>
  With device 7 registered at address 1 and the map mutex not obtained:
  \<open>getDeviceCount\<close> returns 0 although one address is registered, and registering
  device 8 at address 1 returns false and leaves device 7 there.
\<close>

theorem registry_lock_failure:
  "card (dom (deviceMap registry1)) = 1 \<and>
   fst (ModbusRegistry_getDeviceCount True registry1) = 0 \<and>
   fst (ModbusRegistry_registerDevice True 1 (Some 8) registry1) = False \<and>
   fst (ModbusRegistry_getDevice False 1
          (snd (ModbusRegistry_registerDevice True 1 (Some 8) registry1))) = Some 7"
  by (simp add: registry1_eq ModbusRegistry_getDeviceCount_def ModbusRegistry_registerDevice_def
        ModbusRegistry_getDevice_def xSemaphoreTake_def xSemaphoreGive_def)

text \<open>
  C8, as the code has it. When the map mutex is obtained: registering a device at a
  valid address that another device occupies succeeds, a lookup there then returns the
  new device and the count is what it was; and \<open>getDeviceCount\<close> is the number of
  addresses in the map, each of which has one device. Unregistering an address that
  has no device returns false and leaves the registry as it was, mutex or not. When
  the map mutex is missing or not obtained, \<open>getDeviceCount\<close> returns 0 and
  \<open>registerDevice\<close> returns false without changing the map.
\<close>

theorem registry_under_lock:
  "(a \<noteq> 0 \<and> a \<le> 247 \<and> regMutex r = Some False \<and> deviceMap r a = Some old \<longrightarrow>
      (case ModbusRegistry_registerDevice False a (Some new) r of
         (ok, r') \<Rightarrow>
           ok \<and> fst (ModbusRegistry_getDevice False a r') = Some new
           \<and> fst (ModbusRegistry_getDeviceCount False r') = fst (ModbusRegistry_getDeviceCount False r)))
   \<and> (deviceMap r a = None \<longrightarrow> ModbusRegistry_unregisterDevice lockFails a r = (False, r))
   \<and> (regMutex r = Some False \<longrightarrow>
        fst (ModbusRegistry_getDeviceCount False r) = card (dom (deviceMap r)))
   \<and> (regMutex r \<noteq> Some False \<or> lockFails \<longrightarrow>
        fst (ModbusRegistry_getDeviceCount lockFails r) = 0
        \<and> fst (ModbusRegistry_registerDevice lockFails a dv r) = False
        \<and> deviceMap (snd (ModbusRegistry_registerDevice lockFails a dv r)) = deviceMap r)"
  apply (intro conjI impI)
  subgoal by (auto simp: ModbusRegistry_registerDevice_def ModbusRegistry_getDevice_def ModbusRegistry_getDeviceCount_def insert_absorb domI xSemaphoreTake_cases xSemaphoreGive_def)
  subgoal by (cases "regMutex r") (auto simp: ModbusRegistry_unregisterDevice_def xSemaphoreTake_cases xSemaphoreGive_def)
  subgoal by (simp add: ModbusRegistry_getDeviceCount_def xSemaphoreTake_cases)
  subgoal by (auto simp: ModbusRegistry_getDeviceCount_def xSemaphoreTake_cases)
  subgoal by (auto simp: ModbusRegistry_registerDevice_def xSemaphoreTake_cases split: option.splits)
  subgoal by (auto simp: ModbusRegistry_registerDevice_def xSemaphoreTake_cases split: option.splits)
  done

text \<open>
  On the registry with device 7 at address 1: replacing it by device 8, unregistering
  the empty address 2, and counting with and without the mutex.
\<close>

theorem registry_under_lock_witness:
  "regMutex registry1 = Some False \<and> deviceMap registry1 1 = Some 7 \<and>
   fst (ModbusRegistry_registerDevice False 1 (Some 8) registry1) \<and>
   fst (ModbusRegistry_getDevice False 1
          (snd (ModbusRegistry_registerDevice False 1 (Some 8) registry1))) = Some 8 \<and>
   fst (ModbusRegistry_getDeviceCount False
          (snd (ModbusRegistry_registerDevice False 1 (Some 8) registry1))) = 1 \<and>
   fst (ModbusRegistry_getDeviceCount False registry1) = 1 \<and>
   deviceMap registry1 2 = None \<and>
   ModbusRegistry_unregisterDevice False 2 registry1 = (False, registry1) \<and>
   fst (ModbusRegistry_getDeviceCount True registry1) = 0"
  using registry_under_lock[where r = registry1 and a = 1 and old = 7 and new = 8
      and lockFails = True and dv = "Some 8"]
    registry_under_lock[where r = registry1 and a = 2 and old = 7 and new = 8
      and lockFails = False and dv = None]
  by (simp add: registry1_eq ModbusRegistry_registerDevice_def ModbusRegistry_getDevice_def
        ModbusRegistry_getDeviceCount_def ModbusRegistry_unregisterDevice_def
        xSemaphoreTake_def xSemaphoreGive_def)

section \<open>Changing the address\<close>

lemma ModbusDevice_unregisterDevice_eq:
  "ModbusDevice_unregisterDevice u s =
     (SUCCESS, s\<lparr>registry :=
        snd (ModbusRegistry_unregisterDevice u (serverAddress (dev s)) (registry s))\<rparr>)"
  by (simp add: ModbusDevice_unregisterDevice_def split: prod.splits)

lemma ModbusDevice_registerDevice_eq:
  "ModbusDevice_registerDevice g s =
     (if fst (ModbusRegistry_registerDevice g (serverAddress (dev s)) (Some (self (dev s)))
               (registry s))
      then SUCCESS else MUTEX_ERROR,
      s\<lparr>registry :=
        snd (ModbusRegistry_registerDevice g (serverAddress (dev s)) (Some (self (dev s)))
              (registry s))\<rparr>)"
  by (simp add: ModbusDevice_registerDevice_def split: prod.splits bool.splits)

lemma unregister_free:
  "regMutex r = Some False \<Longrightarrow>
   snd (ModbusRegistry_unregisterDevice False a r) = r\<lparr>deviceMap := (deviceMap r)(a := None)\<rparr>"
  by (cases "deviceMap r a") (auto simp: ModbusRegistry_unregisterDevice_def fun_upd_idem xSemaphoreTake_cases xSemaphoreGive_def)

lemma register_map:
  "deviceMap (snd (ModbusRegistry_registerDevice g a (Some d) r)) =
     (if a \<noteq> 0 \<and> a \<le> 247 \<and> regMutex r = Some False \<and> \<not> g
      then (deviceMap r)(a \<mapsto> d) else deviceMap r)"
  by (auto simp: ModbusRegistry_registerDevice_def xSemaphoreTake_cases split: option.splits)

lemma ready1_facts:
  "serverAddress (dev ready1) = 1" "initPhase (dev ready1) = READY" "self (dev ready1) = 0"
  "regMutex (registry ready1) = Some False" "deviceMap (registry ready1) = [1 \<mapsto> 0]"
  by (simp_all add: ready1_def ModbusDevice_registerDevice_def ModbusRegistry_registerDevice_def
        setInitPhase_def system_defs xSemaphoreTake_def xSemaphoreGive_def Let_def)

text \<open>
  C10. \<open>setServerAddress\<close> with 0 or with an address above 247 returns
  INVALID_ADDRESS and leaves the whole system as it was: the address keeps its value
  and the registry keeps the device's entry. With an address in [1,247] the stored
  address becomes the new one, and, the map mutex being obtained, the mapping at the
  old address is removed (and the device is mapped at the new address when it is READY
  and the registration obtains the mutex).
\<close>

theorem setServerAddress_spec:
  "(a = 0 \<or> 247 < a \<longrightarrow> setServerAddress u g a s = (Inl INVALID_ADDRESS, s))
   \<and> (a \<noteq> 0 \<and> a \<le> 247 \<longrightarrow>
        serverAddress (dev (snd (setServerAddress u g a s))) = a
        \<and> (regMutex (registry s) = Some False \<and> \<not> u \<longrightarrow>
             deviceMap (registry (snd (setServerAddress u g a s))) =
               (if initPhase (dev s) = READY \<and> \<not> g
                then (deviceMap (registry s))(serverAddress (dev s) := None, a \<mapsto> self (dev s))
                else (deviceMap (registry s))(serverAddress (dev s) := None))))"
proof (intro conjI impI)
  assume "a = 0 \<or> 247 < a"
  then show "setServerAddress u g a s = (Inl INVALID_ADDRESS, s)"
    by (auto simp: setServerAddress_def MODBUS_MAX_SLAVE_ADDRESS_def)
next
  assume "a \<noteq> 0 \<and> a \<le> 247"
  then have valid: "\<not> (a = 0 \<or> 247 < a)" by auto
  then show "serverAddress (dev (snd (setServerAddress u g a s))) = a"
    by (simp add: setServerAddress_def MODBUS_MAX_SLAVE_ADDRESS_def
        ModbusDevice_unregisterDevice_eq ModbusDevice_registerDevice_eq Let_def)
  assume "regMutex (registry s) = Some False \<and> \<not> u"
  with valid \<open>a \<noteq> 0 \<and> a \<le> 247\<close>
  show "deviceMap (registry (snd (setServerAddress u g a s))) =
               (if initPhase (dev s) = READY \<and> \<not> g
                then (deviceMap (registry s))(serverAddress (dev s) := None, a \<mapsto> self (dev s))
                else (deviceMap (registry s))(serverAddress (dev s) := None))"
    by (simp add: setServerAddress_def MODBUS_MAX_SLAVE_ADDRESS_def
        ModbusDevice_unregisterDevice_eq ModbusDevice_registerDevice_eq Let_def
        unregister_free register_map)
qed

text \<open>
  On a READY device registered at address 1: 0 and 248 are refused and change
  nothing; 0x10 moves the device from address 1 to address 0x10.
\<close>

theorem setServerAddress_spec_witness:
  "setServerAddress False False 0 ready1 = (Inl INVALID_ADDRESS, ready1) \<and>
   setServerAddress False False 248 ready1 = (Inl INVALID_ADDRESS, ready1) \<and>
   serverAddress (dev (snd (setServerAddress False False 0x10 ready1))) = 0x10 \<and>
   deviceMap (registry ready1) 1 = Some 0 \<and>
   deviceMap (registry (snd (setServerAddress False False 0x10 ready1))) 1 = None \<and>
   deviceMap (registry (snd (setServerAddress False False 0x10 ready1))) 0x10 = Some 0"
  using setServerAddress_spec[where a = 0 and s = ready1 and u = False and g = False]
    setServerAddress_spec[where a = 248 and s = ready1 and u = False and g = False]
    setServerAddress_spec[where a = "0x10" and s = ready1 and u = False and g = False]
  by (simp add: ready1_facts)

end
